theory Spec2Isabelle
  imports Main "HOL-Library.Word"
begin

section \<open>Credential lifecycle of the QA monitor: accounts, reset tokens, password reset\<close>

text \<open>
  The development embeds the account model (\<^verbatim>\<open>src/models/User.ts\<close>), the two
  route handlers \<^verbatim>\<open>POST /api/auth/forgot-password\<close> and
  \<^verbatim>\<open>POST /api/auth/reset-password\<close>, and the login form's submit handler
  (\<^verbatim>\<open>src/app/login/page.tsx\<close>).

  Conventions.
  \<^item> A request is the JSON value its body parses to (what \<^verbatim>\<open>request.json()\<close>
    resolves to).
  \<^item> A JavaScript string is the list of its code units, written as a HOL \<open>string\<close>;
    \<open>length\<close> is the JavaScript \<^verbatim>\<open>.length\<close>.
  \<^item> A \<^verbatim>\<open>Date\<close> is its time value, the integer number of milliseconds since the epoch.
  \<^item> The credential store is the list of persisted accounts in natural order;
    \<^verbatim>\<open>findOne\<close> returns the first account that satisfies the query, and a loaded
    document remembers the position it came from.
  \<^item> Library functions whose code is not part of the sources are parameters: the
    deterministic ones in the record \<open>lib\<close>, the ones that read the clock, the random
    generator, the process environment or the database connection in the record
    \<open>env\<close>, one \<open>env\<close> per request.
  \<^item> Every exception is a value of type \<open>exn\<close>; each handler's \<^verbatim>\<open>try\<close> body returns
    \<open>exn + result\<close> and the handler maps \<open>Inl\<close> to its \<^verbatim>\<open>catch\<close> response.
    Console output is not part of the modelled state.
\<close>

subsection \<open>JSON values as JavaScript sees them\<close>

text \<open>
  A parsed JSON value. A number is kept as the string \<^verbatim>\<open>String(n)\<close> gives for it (zero,
  of either sign, is \<open>''0''\<close>): the handlers only test numbers for truthiness, compare
  them with \<^verbatim>\<open>!==\<close> and convert them to strings. A property that is absent reads as
  \<^verbatim>\<open>undefined\<close>, which is \<open>None\<close> in \<open>json option\<close>.
\<close>

datatype json =
    JNull
  | JBool bool
  | JNum string
  | JStr string
  | JArr "json list"
  | JObj "(string \<times> json) list"

datatype exn =
    TypeError
  | ConnectionError
  | QueryError
  | WriteError
  | ValidationError
  | HashError

text \<open>\<^verbatim>\<open>const { k } = body\<close>: destructuring \<^verbatim>\<open>null\<close> throws; a property that a
  primitive or an array does not have is \<^verbatim>\<open>undefined\<close>.\<close>

fun destructure :: "json \<Rightarrow> exn + (string \<Rightarrow> json option)" where
  "destructure JNull = Inl TypeError"
| "destructure (JObj fs) = Inr (map_of fs)"
| "destructure _ = Inr (\<lambda>k. None)"

text \<open>JavaScript truthiness, as tested by \<^verbatim>\<open>!x\<close> and \<^verbatim>\<open>x || y\<close>.\<close>

fun truthy :: "json option \<Rightarrow> bool" where
  "truthy None = False"
| "truthy (Some JNull) = False"
| "truthy (Some (JBool b)) = b"
| "truthy (Some (JNum n)) = (n \<noteq> ''0'')"
| "truthy (Some (JStr s)) = (s \<noteq> [])"
| "truthy (Some (JArr xs)) = True"
| "truthy (Some (JObj fs)) = True"

text \<open>\<^verbatim>\<open>a === b\<close> on two values parsed from one JSON text: primitives compare by value,
  arrays and objects by reference, and two parsed arrays or objects are never the same
  reference.\<close>

fun strict_eq :: "json option \<Rightarrow> json option \<Rightarrow> bool" where
  "strict_eq None None = True"
| "strict_eq (Some JNull) (Some JNull) = True"
| "strict_eq (Some (JBool a)) (Some (JBool b)) = (a = b)"
| "strict_eq (Some (JNum a)) (Some (JNum b)) = (a = b)"
| "strict_eq (Some (JStr a)) (Some (JStr b)) = (a = b)"
| "strict_eq _ _ = False"

text \<open>\<^verbatim>\<open>x.length < n\<close>. A string has its number of code units and an array its number
  of elements; a number or a boolean has no \<^verbatim>\<open>length\<close>, and \<^verbatim>\<open>undefined < n\<close> is
  false. Reading a property of \<^verbatim>\<open>undefined\<close> or \<^verbatim>\<open>null\<close> throws. An object would
  answer with its own \<^verbatim>\<open>length\<close> property; no handler reaches this case (an object never
  passes the strict comparison that precedes the only use), and it is modelled as the
  property being absent.\<close>

fun length_less :: "json option \<Rightarrow> nat \<Rightarrow> exn + bool" where
  "length_less None n = Inl TypeError"
| "length_less (Some JNull) n = Inl TypeError"
| "length_less (Some (JStr s)) n = Inr (length s < n)"
| "length_less (Some (JArr xs)) n = Inr (length xs < n)"
| "length_less (Some _) n = Inr False"

subsection \<open>Accounts and documents (\<^verbatim>\<open>src/models/User.ts\<close>)\<close>

text \<open>The persisted fields of \<^verbatim>\<open>IUser\<close>. The two timestamps that Mongoose maintains
  by itself (\<^verbatim>\<open>createdAt\<close>, \<^verbatim>\<open>updatedAt\<close>) are read by no handler and are left out.\<close>

record user =
  name :: string
  email :: string
  password :: string
  isActive :: bool
  isFirstLogin :: bool
  resetPasswordToken :: "string option"
  resetPasswordExpires :: "int option"
  lastLoginAt :: "int option"

text \<open>A Mongoose document: the position of the account it was loaded from, its current
  field values, and the paths modified since load. Assigning to a property marks its
  path modified only when the assigned value differs from the current one; this is
  what \<^verbatim>\<open>isModified\<close> reports.\<close>

record document =
  docId :: nat
  doc :: user
  modifiedPaths :: "string set"

definition isModified :: "document \<Rightarrow> string \<Rightarrow> bool" where
  "isModified d p = (p \<in> modifiedPaths d)"

definition markModified :: "bool \<Rightarrow> string \<Rightarrow> document \<Rightarrow> document" where
  "markModified changed p d =
     (if changed then d\<lparr>modifiedPaths := insert p (modifiedPaths d)\<rparr> else d)"

definition set_password :: "string \<Rightarrow> document \<Rightarrow> document" where
  "set_password v d =
     (markModified (v \<noteq> password (doc d)) ''password'' d)\<lparr>doc := (doc d)\<lparr>password := v\<rparr>\<rparr>"

definition set_isFirstLogin :: "bool \<Rightarrow> document \<Rightarrow> document" where
  "set_isFirstLogin v d =
     (markModified (v \<noteq> isFirstLogin (doc d)) ''isFirstLogin'' d)
       \<lparr>doc := (doc d)\<lparr>isFirstLogin := v\<rparr>\<rparr>"

definition set_resetPasswordToken :: "string option \<Rightarrow> document \<Rightarrow> document" where
  "set_resetPasswordToken v d =
     (markModified (v \<noteq> resetPasswordToken (doc d)) ''resetPasswordToken'' d)
       \<lparr>doc := (doc d)\<lparr>resetPasswordToken := v\<rparr>\<rparr>"

definition set_resetPasswordExpires :: "int option \<Rightarrow> document \<Rightarrow> document" where
  "set_resetPasswordExpires v d =
     (markModified (v \<noteq> resetPasswordExpires (doc d)) ''resetPasswordExpires'' d)
       \<lparr>doc := (doc d)\<lparr>resetPasswordExpires := v\<rparr>\<rparr>"

definition set_lastLoginAt :: "int option \<Rightarrow> document \<Rightarrow> document" where
  "set_lastLoginAt v d =
     (markModified (v \<noteq> lastLoginAt (doc d)) ''lastLoginAt'' d)
       \<lparr>doc := (doc d)\<lparr>lastLoginAt := v\<rparr>\<rparr>"

subsection \<open>The environment\<close>

text \<open>Deterministic library functions: \<^verbatim>\<open>crypto.createHash('sha256')\<close> with hex
  digest, \<^verbatim>\<open>bcrypt.hash\<close> of a plaintext under a salt (\<open>None\<close> when it rejects),
  \<^verbatim>\<open>String.prototype.toLowerCase\<close>, and the cast Mongoose applies to a query value
  for the path \<^verbatim>\<open>email\<close>, whose schema declares \<^verbatim>\<open>trim\<close> and \<^verbatim>\<open>lowercase\<close>.\<close>

record lib =
  sha256 :: "string \<Rightarrow> string"
  bcryptHash :: "string \<Rightarrow> string \<Rightarrow> string option"
  toLowerCase :: "string \<Rightarrow> string"
  castEmail :: "string \<Rightarrow> string"

text \<open>What one request reads from outside: whether \<^verbatim>\<open>connectToDatabase\<close>, the query and
  the write succeed, the clock (\<open>clock e k\<close> is the \<open>k\<close>-th reading taken by the request),
  the bytes of the random generator, the outcome of \<^verbatim>\<open>bcrypt.genSalt\<close> for a cost
  factor, and \<^verbatim>\<open>process.env.NODE_ENV\<close>.\<close>

record env =
  connectOk :: bool
  findOk :: bool
  saveOk :: bool
  clock :: "nat \<Rightarrow> int"
  entropy :: "nat \<Rightarrow> 8 word"
  genSalt :: "nat \<Rightarrow> string option"
  NODE_ENV :: "string option"

definition randomBytes :: "env \<Rightarrow> nat \<Rightarrow> 8 word list" where
  "randomBytes e n = map (entropy e) [0..<n]"

text \<open>\<^verbatim>\<open>Buffer.toString('hex')\<close>: two lowercase hexadecimal digits per byte.\<close>

definition hexDigit :: "nat \<Rightarrow> char" where
  "hexDigit n = ''0123456789abcdef'' ! (n mod 16)"

definition hex :: "8 word list \<Rightarrow> string" where
  "hex bs = concat (map (\<lambda>b. [hexDigit (unat b div 16), hexDigit (unat b mod 16)]) bs)"

subsection \<open>Methods and hooks of the schema\<close>

text \<open>\<^verbatim>\<open>generatePasswordResetToken\<close>: 32 random bytes in hex are the plaintext; the
  document receives the SHA-256 of the plaintext and the expiry ten minutes after the
  clock reading; the plaintext is the return value.\<close>

definition generatePasswordResetToken :: "lib \<Rightarrow> env \<Rightarrow> document \<Rightarrow> string \<times> document" where
  "generatePasswordResetToken l e d =
     (let resetToken = hex (randomBytes e 32);
          d1 = set_resetPasswordToken (Some (sha256 l resetToken)) d;
          d2 = set_resetPasswordExpires (Some (clock e 0 + 10 * 60 * 1000)) d1
      in (resetToken, d2))"

definition clearPasswordResetToken :: "document \<Rightarrow> document" where
  "clearPasswordResetToken d =
     set_resetPasswordExpires None (set_resetPasswordToken None d)"

text \<open>The \<^verbatim>\<open>pre('save')\<close> hook: an unmodified password is passed through; a modified
  one is replaced by its bcrypt hash under a fresh salt of cost factor 12; a rejection
  of either call is handed to \<^verbatim>\<open>next\<close> as the error of the save.\<close>

definition pre_save :: "lib \<Rightarrow> env \<Rightarrow> document \<Rightarrow> exn + document" where
  "pre_save l e d =
     (if \<not> isModified d ''password'' then Inr d
      else case genSalt e 12 of
             None \<Rightarrow> Inl HashError
           | Some salt \<Rightarrow>
               (case bcryptHash l (password (doc d)) salt of
                  None \<Rightarrow> Inl HashError
                | Some hashed \<Rightarrow> Inr (d\<lparr>doc := (doc d)\<lparr>password := hashed\<rparr>\<rparr>)))"

text \<open>Regular expressions over code units, as far as the schema's pattern needs them:
  a symbol is \<^verbatim>\<open>\w\<close> or one of a list of characters. A string matches an anchored
  pattern exactly when it belongs to the pattern's language, decided here by
  derivatives.\<close>

datatype charClass = WordChar | OneOf string

datatype regex =
    RNever
  | REmpty
  | RSym charClass
  | RAlt regex regex
  | RSeq regex regex
  | RStar regex

definition isWordChar :: "char \<Rightarrow> bool" where
  "isWordChar c =
     (let n = (of_char c :: nat)
      in (48 \<le> n \<and> n \<le> 57) \<or> (65 \<le> n \<and> n \<le> 90) \<or> n = 95 \<or> (97 \<le> n \<and> n \<le> 122))"

fun inClass :: "charClass \<Rightarrow> char \<Rightarrow> bool" where
  "inClass WordChar c = isWordChar c"
| "inClass (OneOf cs) c = (c \<in> set cs)"

fun nullable :: "regex \<Rightarrow> bool" where
  "nullable RNever = False"
| "nullable REmpty = True"
| "nullable (RSym k) = False"
| "nullable (RAlt r s) = (nullable r \<or> nullable s)"
| "nullable (RSeq r s) = (nullable r \<and> nullable s)"
| "nullable (RStar r) = True"

fun deriv :: "char \<Rightarrow> regex \<Rightarrow> regex" where
  "deriv c RNever = RNever"
| "deriv c REmpty = RNever"
| "deriv c (RSym k) = (if inClass k c then REmpty else RNever)"
| "deriv c (RAlt r s) = RAlt (deriv c r) (deriv c s)"
| "deriv c (RSeq r s) =
     (if nullable r then RAlt (RSeq (deriv c r) s) (deriv c s) else RSeq (deriv c r) s)"
| "deriv c (RStar r) = RSeq (deriv c r) (RStar r)"

fun matches :: "regex \<Rightarrow> string \<Rightarrow> bool" where
  "matches r [] = nullable r"
| "matches r (c # cs) = matches (deriv c r) cs"

definition RPlus :: "regex \<Rightarrow> regex" where
  "RPlus r = RSeq r (RStar r)"

definition ROpt :: "regex \<Rightarrow> regex" where
  "ROpt r = RAlt REmpty r"

text \<open>The pattern of the \<^verbatim>\<open>email\<close> path,
  \<^verbatim>\<open>/^\w+([.-]?\w+)*@\w+([.-]?\w+)*(\.\w{2,3})+$/\<close>.\<close>

definition emailPattern :: regex where
  "emailPattern =
     RSeq (RPlus (RSym WordChar))
    (RSeq (RStar (RSeq (ROpt (RSym (OneOf ''.-''))) (RPlus (RSym WordChar))))
    (RSeq (RSym (OneOf ''@''))
    (RSeq (RPlus (RSym WordChar))
    (RSeq (RStar (RSeq (ROpt (RSym (OneOf ''.-''))) (RPlus (RSym WordChar))))
          (RPlus (RSeq (RSym (OneOf ''.''))
                   (RSeq (RSym WordChar) (RSeq (RSym WordChar) (ROpt (RSym WordChar))))))))))"

text \<open>The validators of the schema. \<^verbatim>\<open>name\<close>: required, \<^verbatim>\<open>minlength 2\<close>,
  \<^verbatim>\<open>maxlength 50\<close>; \<^verbatim>\<open>email\<close>: required, \<^verbatim>\<open>match\<close>; \<^verbatim>\<open>password\<close>: required,
  \<^verbatim>\<open>minlength 6\<close>. A required string is a non-empty one. The other paths have no
  validator.\<close>

definition validName :: "string \<Rightarrow> bool" where
  "validName n = (n \<noteq> [] \<and> 2 \<le> length n \<and> length n \<le> 50)"

definition validEmail :: "string \<Rightarrow> bool" where
  "validEmail a = (a \<noteq> [] \<and> matches emailPattern a)"

definition validPassword :: "string \<Rightarrow> bool" where
  "validPassword p = (p \<noteq> [] \<and> 6 \<le> length p)"

definition schemaValid :: "user \<Rightarrow> bool" where
  "schemaValid u = (validName (name u) \<and> validEmail (email u) \<and> validPassword (password u))"

text \<open>The validation Mongoose runs before the \<^verbatim>\<open>save\<close> hooks. It covers the paths of
  the loaded document whether or not they were modified, so a document whose stored
  name, email or password violates the schema cannot be saved; the password it sees is
  the assigned one, before the hook hashes it.\<close>

definition validateBeforeSave :: "document \<Rightarrow> exn + document" where
  "validateBeforeSave d = (if schemaValid (doc d) then Inr d else Inl ValidationError)"

text \<open>\<^verbatim>\<open>document.save()\<close>: validation, then the hook, then the write of the document to
  the account it was loaded from. Any failure leaves the store as it was.\<close>

definition save :: "lib \<Rightarrow> env \<Rightarrow> document \<Rightarrow> user list \<Rightarrow> exn + user list" where
  "save l e d store =
     (case validateBeforeSave d of
        Inl x \<Rightarrow> Inl x
      | Inr d1 \<Rightarrow>
          (case pre_save l e d1 of
             Inl x \<Rightarrow> Inl x
           | Inr d2 \<Rightarrow>
               if saveOk e then Inr (store[docId d2 := doc d2]) else Inl WriteError))"

text \<open>\<^verbatim>\<open>Model.findOne(query)\<close>: the first account that satisfies the query, as a clean
  document.\<close>

fun findFrom :: "nat \<Rightarrow> (user \<Rightarrow> bool) \<Rightarrow> user list \<Rightarrow> document option" where
  "findFrom i q [] = None"
| "findFrom i q (u # us) =
     (if q u then Some \<lparr>docId = i, doc = u, modifiedPaths = {}\<rparr> else findFrom (Suc i) q us)"

definition findOne :: "env \<Rightarrow> (user \<Rightarrow> bool) \<Rightarrow> user list \<Rightarrow> exn + document option" where
  "findOne e q store = (if findOk e then Inr (findFrom 0 q store) else Inl QueryError)"

text \<open>\<^verbatim>\<open>comparePassword\<close> delegates to \<^verbatim>\<open>bcrypt.compare\<close>, taken as a parameter.\<close>

definition comparePassword :: "(string \<Rightarrow> string \<Rightarrow> bool) \<Rightarrow> user \<Rightarrow> string \<Rightarrow> bool" where
  "comparePassword bcryptCompare u candidatePassword =
     bcryptCompare candidatePassword (password u)"

subsection \<open>Responses\<close>

text \<open>What \<^verbatim>\<open>NextResponse.json(body, {status})\<close> sends: the status (200 when none is
  given) and the properties of the body. A property whose value is \<^verbatim>\<open>undefined\<close> is
  dropped by the JSON encoding, so it is \<open>None\<close> like a property that was never written.\<close>

record response =
  status :: nat
  success :: bool
  message :: "string option"
  error :: "string option"
  resetToken :: "string option"

definition failure :: "nat \<Rightarrow> string \<Rightarrow> response" where
  "failure code reason =
     \<lparr>status = code, success = False, message = None, error = Some reason, resetToken = None\<rparr>"

definition succeeded :: "string \<Rightarrow> response" where
  "succeeded text =
     \<lparr>status = 200, success = True, message = Some text, error = None, resetToken = None\<rparr>"

definition genericMessage :: string where
  "genericMessage = ''If an account with that email exists, a password reset link has been sent.''"

subsection \<open>\<^verbatim>\<open>POST /api/auth/forgot-password\<close>\<close>

text \<open>\<^verbatim>\<open>email.toLowerCase()\<close>: only a string has the method.\<close>

fun lowered :: "lib \<Rightarrow> json option \<Rightarrow> exn + string" where
  "lowered l (Some (JStr s)) = Inr (toLowerCase l s)"
| "lowered l _ = Inl TypeError"

definition forgot_password_try ::
  "lib \<Rightarrow> env \<Rightarrow> json \<Rightarrow> user list \<Rightarrow> exn + response \<times> user list" where
  "forgot_password_try l e body store =
     (if \<not> connectOk e then Inl ConnectionError
      else case destructure body of
        Inl x \<Rightarrow> Inl x
      | Inr props \<Rightarrow>
          if \<not> truthy (props ''email'') then Inr (failure 400 ''Email is required'', store)
          else case lowered l (props ''email'') of
            Inl x \<Rightarrow> Inl x
          | Inr address \<Rightarrow>
              (case findOne e (\<lambda>u. email u = castEmail l address) store of
                 Inl x \<Rightarrow> Inl x
               | Inr None \<Rightarrow> Inr (succeeded genericMessage, store)
               | Inr (Some d) \<Rightarrow>
                   if \<not> isActive (doc d) then Inr (succeeded genericMessage, store)
                   else
                     let (token, d1) = generatePasswordResetToken l e d in
                     (case save l e d1 store of
                        Inl x \<Rightarrow> Inl x
                      | Inr store1 \<Rightarrow>
                          Inr ((succeeded genericMessage)
                                 \<lparr>resetToken :=
                                    if NODE_ENV e = Some ''development'' then Some token
                                    else None\<rparr>,
                               store1))))"

definition forgot_password_POST :: "lib \<Rightarrow> env \<Rightarrow> json \<Rightarrow> user list \<Rightarrow> response \<times> user list" where
  "forgot_password_POST l e body store =
     (case forgot_password_try l e body store of
        Inl x \<Rightarrow> (failure 500 ''Failed to process forgot password request'', store)
      | Inr r \<Rightarrow> r)"

subsection \<open>\<^verbatim>\<open>POST /api/auth/reset-password\<close>\<close>

text \<open>\<^verbatim>\<open>hash.update(token)\<close> accepts a string and throws on any other JSON value.\<close>

fun hashedToken :: "lib \<Rightarrow> json option \<Rightarrow> exn + string" where
  "hashedToken l (Some (JStr t)) = Inr (sha256 l t)"
| "hashedToken l _ = Inl TypeError"

text \<open>The cast of an assigned value to the schema type \<^verbatim>\<open>String\<close>: a number or a
  boolean becomes its \<^verbatim>\<open>toString()\<close>; what cannot be cast is reported by the save, as
  is a missing required value.\<close>

fun castString :: "json option \<Rightarrow> exn + string" where
  "castString (Some (JStr s)) = Inr s"
| "castString (Some (JNum n)) = Inr n"
| "castString (Some (JBool b)) = Inr (if b then ''true'' else ''false'')"
| "castString _ = Inl ValidationError"

text \<open>The query of the handler: the stored hash is the presented one and the stored
  expiry is strictly after the clock reading.\<close>

definition validResetToken :: "string \<Rightarrow> int \<Rightarrow> user \<Rightarrow> bool" where
  "validResetToken hashed now u =
     (resetPasswordToken u = Some hashed \<and>
      (case resetPasswordExpires u of None \<Rightarrow> False | Some expires \<Rightarrow> expires > now))"

definition reset_password_try ::
  "lib \<Rightarrow> env \<Rightarrow> json \<Rightarrow> user list \<Rightarrow> exn + response \<times> user list" where
  "reset_password_try l e body store =
     (if \<not> connectOk e then Inl ConnectionError
      else case destructure body of
        Inl x \<Rightarrow> Inl x
      | Inr props \<Rightarrow>
          if \<not> truthy (props ''token'') \<or> \<not> truthy (props ''password'')
             \<or> \<not> truthy (props ''confirmPassword'')
          then Inr (failure 400 ''Token, password, and confirm password are required'', store)
          else if \<not> strict_eq (props ''password'') (props ''confirmPassword'')
          then Inr (failure 400 ''Passwords do not match'', store)
          else case length_less (props ''password'') 6 of
            Inl x \<Rightarrow> Inl x
          | Inr True \<Rightarrow> Inr (failure 400 ''Password must be at least 6 characters long'', store)
          | Inr False \<Rightarrow>
              (case hashedToken l (props ''token'') of
                 Inl x \<Rightarrow> Inl x
               | Inr hashed \<Rightarrow>
                   (case findOne e (validResetToken hashed (clock e 0)) store of
                      Inl x \<Rightarrow> Inl x
                    | Inr None \<Rightarrow> Inr (failure 400 ''Invalid or expired reset token'', store)
                    | Inr (Some d) \<Rightarrow>
                        (case castString (props ''password'') of
                           Inl x \<Rightarrow> Inl x
                         | Inr secret \<Rightarrow>
                             let d1 = set_password secret d;
                                 d2 = set_isFirstLogin False d1;
                                 d3 = clearPasswordResetToken d2;
                                 d4 = set_lastLoginAt (Some (clock e 1)) d3
                             in (case save l e d4 store of
                                   Inl x \<Rightarrow> Inl x
                                 | Inr store1 \<Rightarrow>
                                     Inr (succeeded ''Password has been reset successfully'',
                                          store1))))))"

definition reset_password_POST :: "lib \<Rightarrow> env \<Rightarrow> json \<Rightarrow> user list \<Rightarrow> response \<times> user list" where
  "reset_password_POST l e body store =
     (case reset_password_try l e body store of
        Inl x \<Rightarrow> (failure 500 ''Failed to reset password'', store)
      | Inr r \<Rightarrow> r)"

subsection \<open>The login form (\<^verbatim>\<open>src/app/login/page.tsx\<close>)\<close>

text \<open>The state \<^verbatim>\<open>handleSubmit\<close> writes: the browser's \<^verbatim>\<open>localStorage\<close>, the default
  \<^verbatim>\<open>Authorization\<close> header of axios, the routes pushed on the router (latest first),
  and the two pieces of component state.\<close>

record client =
  localStorage :: "string \<rightharpoonup> string"
  authorization :: "string option"
  pushed :: "string list"
  formError :: json
  loading :: bool

text \<open>The outcome of \<^verbatim>\<open>axios.post\<close>: the parsed body of a 2xx response, or a rejection,
  of which the handler reads \<^verbatim>\<open>error.response?.data?.error\<close> only.\<close>

datatype axios_result = Resolved json | Rejected "json option"

fun joinComma :: "string list \<Rightarrow> string" where
  "joinComma [] = []"
| "joinComma [x] = x"
| "joinComma (x # y # ys) = x @ '','' @ joinComma (y # ys)"

text \<open>The string a template literal or \<^verbatim>\<open>setItem\<close> makes of a value.\<close>

fun toStr :: "json \<Rightarrow> string" where
  "toStr JNull = ''null''"
| "toStr (JBool b) = (if b then ''true'' else ''false'')"
| "toStr (JNum n) = n"
| "toStr (JStr s) = s"
| "toStr (JArr xs) = joinComma (map (\<lambda>x. if x = JNull then [] else toStr x) xs)"
| "toStr (JObj fs) = ''[object Object]''"

definition toString :: "json option \<Rightarrow> string" where
  "toString v = (case v of None \<Rightarrow> ''undefined'' | Some x \<Rightarrow> toStr x)"

text \<open>\<^verbatim>\<open>a || b\<close> where \<open>b\<close> is a string literal.\<close>

definition orElse :: "json option \<Rightarrow> string \<Rightarrow> json" where
  "orElse a b = (case a of Some v \<Rightarrow> if truthy a then v else JStr b | None \<Rightarrow> JStr b)"

text \<open>\<^verbatim>\<open>response.data.data.token\<close>: reading \<^verbatim>\<open>token\<close> of a missing or null
  \<^verbatim>\<open>data\<close> throws.\<close>

definition dataToken :: "(string \<Rightarrow> json option) \<Rightarrow> exn + json option" where
  "dataToken props =
     (case props ''data'' of
        None \<Rightarrow> Inl TypeError
      | Some inner \<Rightarrow> (case destructure inner of Inl x \<Rightarrow> Inl x | Inr ps \<Rightarrow> Inr (ps ''token'')))"

text \<open>The \<^verbatim>\<open>try\<close> body after the two state updates; \<open>Inl v\<close> is an exception whose
  \<^verbatim>\<open>error.response?.data?.error\<close> is \<open>v\<close>.\<close>

definition handleSubmit_try :: "axios_result \<Rightarrow> client \<Rightarrow> json option + client" where
  "handleSubmit_try result c =
     (case result of
        Rejected v \<Rightarrow> Inl v
      | Resolved data \<Rightarrow>
          (case destructure data of
             Inl x \<Rightarrow> Inl None
           | Inr props \<Rightarrow>
               if truthy (props ''success'') then
                 if truthy (props ''requiresPasswordReset'') then
                   Inr (c\<lparr>pushed :=
                           (''/reset-password?token='' @ toString (props ''resetToken'')
                              @ ''&first=true'') # pushed c\<rparr>)
                 else
                   (case dataToken props of
                      Inl x \<Rightarrow> Inl None
                    | Inr token \<Rightarrow>
                        Inr (c\<lparr>localStorage := (localStorage c)(''auth-token'' \<mapsto> toString token),
                               authorization := Some (''Bearer '' @ toString token),
                               pushed := ''/dashboard'' # pushed c\<rparr>))
               else Inr (c\<lparr>formError := orElse (props ''error'') ''Login failed''\<rparr>)))"

definition handleSubmit :: "(string \<Rightarrow> string \<Rightarrow> axios_result) \<Rightarrow> string \<Rightarrow> string \<Rightarrow> client \<Rightarrow> client" where
  "handleSubmit post formEmail formPassword c =
     (if formEmail = [] \<or> formPassword = [] then c\<lparr>formError := JStr ''Please fill in all fields''\<rparr>
      else
        let c1 = c\<lparr>loading := True, formError := JStr []\<rparr>;
            c2 = (case handleSubmit_try (post formEmail formPassword) c1 of
                    Inl v \<Rightarrow> c1\<lparr>formError := orElse v ''Login failed''\<rparr>
                  | Inr c' \<Rightarrow> c')
        in c2\<lparr>loading := False\<rparr>)"

subsection \<open>The login route\<close>

datatype auth_signal = LoginFailed | PasswordResetRequired string | Authenticated string

text \<open>Modelled from the spec: the route \<^verbatim>\<open>POST /api/auth/login\<close> that the login form
  calls is not among the sources; \<open>authenticate\<close> follows the three steps of the
  specification's session issuer. The account is looked up by its lowercased email; an
  absent or inactive account or a secret that does not verify fails uniformly; a
  first-login account gets a reset token issued by \<open>generatePasswordResetToken\<close> and
  stored on the account, and no session token; any other account gets
  \<^verbatim>\<open>lastLoginAt\<close> updated and a bearer token bound to it. The secret verification and
  the signing of the bearer token are parameters.\<close>

definition authenticate ::
  "lib \<Rightarrow> env \<Rightarrow> (string \<Rightarrow> string \<Rightarrow> bool) \<Rightarrow> (user \<Rightarrow> string) \<Rightarrow>
   string \<Rightarrow> string \<Rightarrow> user list \<Rightarrow> auth_signal \<times> user list" where
  "authenticate l e bcryptCompare sign address secret store =
     (case findFrom 0 (\<lambda>u. email u = toLowerCase l address) store of
        None \<Rightarrow> (LoginFailed, store)
      | Some d \<Rightarrow>
          if \<not> isActive (doc d) \<or> \<not> comparePassword bcryptCompare (doc d) secret
          then (LoginFailed, store)
          else if isFirstLogin (doc d) then
            let (token, d1) = generatePasswordResetToken l e d
            in (PasswordResetRequired token, store[docId d1 := doc d1])
          else
            let d1 = set_lastLoginAt (Some (clock e 0)) d
            in (Authenticated (sign (doc d1)), store[docId d1 := doc d1]))"

text \<open>Modelled from the spec: the three response bodies of \<^verbatim>\<open>POST /login\<close> listed
  with the external interfaces, as the login form receives them.\<close>

definition login_response :: "auth_signal \<Rightarrow> axios_result" where
  "login_response sig =
     (case sig of
        Authenticated bearer \<Rightarrow>
          Resolved (JObj [(''success'', JBool True), (''data'', JObj [(''token'', JStr bearer)])])
      | PasswordResetRequired token \<Rightarrow>
          Resolved (JObj [(''success'', JBool True), (''requiresPasswordReset'', JBool True),
                          (''resetToken'', JStr token)])
      | LoginFailed \<Rightarrow>
          Resolved (JObj [(''success'', JBool False), (''error'', JStr ''Login failed'')]))"

subsection \<open>Predicates of the statements and sample values\<close>

text \<open>The pairing invariant of the reset-token fields: both absent or both present.\<close>

definition tokenPaired :: "user \<Rightarrow> bool" where
  "tokenPaired u = ((resetPasswordToken u = None) = (resetPasswordExpires u = None))"

text \<open>A toy instance of the library and of a request's environment, and an account, on
  which the statements below are evaluated.\<close>

definition sampleLib :: lib where
  "sampleLib =
     \<lparr>sha256 = (\<lambda>s. ''sha256:'' @ s),
      bcryptHash = (\<lambda>plain salt. Some (''$2a$12$'' @ salt @ plain)),
      toLowerCase = (\<lambda>s. s),
      castEmail = (\<lambda>s. s)\<rparr>"

definition sampleEnv :: env where
  "sampleEnv =
     \<lparr>connectOk = True, findOk = True, saveOk = True,
      clock = (\<lambda>k. 1000000 + int k),
      entropy = (\<lambda>k. 7),
      genSalt = (\<lambda>cost. Some ''salt''),
      NODE_ENV = Some ''production''\<rparr>"

definition alice :: user where
  "alice =
     \<lparr>name = ''Alice'', email = ''alice@x.com'', password = ''$2a$12$stored'',
      isActive = True, isFirstLogin = True,
      resetPasswordToken = None, resetPasswordExpires = None, lastLoginAt = None\<rparr>"

text \<open>The account with the reset token \<open>''r1''\<close> outstanding until time 1600000.\<close>

definition aliceWithToken :: user where
  "aliceWithToken =
     alice\<lparr>resetPasswordToken := Some ''sha256:r1'', resetPasswordExpires := Some 1600000\<rparr>"

definition resetBody :: "string \<Rightarrow> string \<Rightarrow> string \<Rightarrow> json" where
  "resetBody token secret confirm =
     JObj [(''token'', JStr token), (''password'', JStr secret), (''confirmPassword'', JStr confirm)]"

text \<open>A login form before anything was submitted, and stand-ins for
  \<^verbatim>\<open>bcrypt.compare\<close> and for the signing of a bearer token.\<close>

definition sampleClient :: client where
  "sampleClient =
     \<lparr>localStorage = Map.empty, authorization = None, pushed = [], formError = JStr [],
      loading = False\<rparr>"

definition sampleCompare :: "string \<Rightarrow> string \<Rightarrow> bool" where
  "sampleCompare candidate stored = (candidate = ''hunter2x'' \<and> stored = ''$2a$12$stored'')"

definition sampleSign :: "user \<Rightarrow> string" where
  "sampleSign u = ''bearer:'' @ email u"

section \<open>Properties\<close>

subsection \<open>Auxiliary facts\<close>

lemma findFrom_None_iff: "findFrom i q us = None \<longleftrightarrow> (\<forall>u\<in>set us. \<not> q u)"
  by (induction us arbitrary: i) auto

lemma findFrom_Some:
  "findFrom i q us = Some d \<Longrightarrow>
     i \<le> docId d \<and> docId d - i < length us \<and> us ! (docId d - i) = doc d \<and> q (doc d)
     \<and> modifiedPaths d = {} \<and> (\<forall>j < docId d - i. \<not> q (us ! j))"
proof (induction us arbitrary: i)
  case Nil
  then show ?case by simp
next
  case (Cons u us)
  show ?case
  proof (cases "q u")
    case True
    with Cons.prems show ?thesis by auto
  next
    case False
    with Cons.prems have f: "findFrom (Suc i) q us = Some d" by simp
    from Cons.IH[OF f] have ih: "Suc i \<le> docId d" "docId d - Suc i < length us"
      "us ! (docId d - Suc i) = doc d" "q (doc d)" "modifiedPaths d = {}"
      "\<forall>j < docId d - Suc i. \<not> q (us ! j)" by auto
    from ih(1) have eq: "docId d - i = Suc (docId d - Suc i)" by simp
    have "\<forall>j < docId d - i. \<not> q ((u # us) ! j)"
    proof (intro allI impI)
      fix j assume "j < docId d - i"
      then show "\<not> q ((u # us) ! j)" using False ih(6) eq by (cases j) auto
    qed
    then show ?thesis using ih eq by auto
  qed
qed

lemma findFrom0_Some:
  "findFrom 0 q us = Some d \<Longrightarrow>
     docId d < length us \<and> us ! docId d = doc d \<and> q (doc d) \<and> modifiedPaths d = {}
     \<and> (\<forall>j < docId d. \<not> q (us ! j))"
  using findFrom_Some[of 0 q us d] by simp

lemma generate_fst: "fst (generatePasswordResetToken l e d) = hex (randomBytes e 32)"
  by (simp add: generatePasswordResetToken_def Let_def)

lemma generate_doc:
  "doc (snd (generatePasswordResetToken l e d)) =
     (doc d)\<lparr>resetPasswordToken := Some (sha256 l (hex (randomBytes e 32))),
             resetPasswordExpires := Some (clock e 0 + 600000)\<rparr>"
  by (simp add: generatePasswordResetToken_def Let_def set_resetPasswordToken_def
      set_resetPasswordExpires_def markModified_def)

lemma generate_docId: "docId (snd (generatePasswordResetToken l e d)) = docId d"
  by (simp add: generatePasswordResetToken_def Let_def set_resetPasswordToken_def
      set_resetPasswordExpires_def markModified_def)

lemma generate_isModified_password:
  "isModified (snd (generatePasswordResetToken l e d)) ''password'' = isModified d ''password''"
  by (simp add: generatePasswordResetToken_def Let_def set_resetPasswordToken_def
      set_resetPasswordExpires_def markModified_def isModified_def)

lemma schemaValid_token_fields:
  "schemaValid (u\<lparr>resetPasswordToken := h, resetPasswordExpires := x\<rparr>) = schemaValid u"
  by (simp add: schemaValid_def)

lemma save_clean_password:
  "\<not> isModified d ''password'' \<Longrightarrow> saveOk e \<Longrightarrow> schemaValid (doc d) \<Longrightarrow>
     save l e d store = Inr (store[docId d := doc d])"
  by (simp add: save_def validateBeforeSave_def pre_save_def)

lemma save_fails:
  "\<not> (saveOk e \<and> schemaValid (doc d)) \<Longrightarrow> \<exists>x. save l e d store = Inl x"
  by (auto simp add: save_def validateBeforeSave_def split: sum.splits)

lemma forgot_password_no_account:
  assumes "connectOk e" "findOk e" "map_of fs ''email'' = Some (JStr a)" "a \<noteq> []"
    and "findFrom 0 (\<lambda>u. email u = castEmail l (toLowerCase l a)) store = None"
  shows "forgot_password_POST l e (JObj fs) store = (succeeded genericMessage, store)"
  using assms by (simp add: forgot_password_POST_def forgot_password_try_def findOne_def)

lemma forgot_password_inactive:
  assumes "connectOk e" "findOk e" "map_of fs ''email'' = Some (JStr a)" "a \<noteq> []"
    and "findFrom 0 (\<lambda>u. email u = castEmail l (toLowerCase l a)) store = Some d" "\<not> isActive (doc d)"
  shows "forgot_password_POST l e (JObj fs) store = (succeeded genericMessage, store)"
  using assms by (simp add: forgot_password_POST_def forgot_password_try_def findOne_def)

lemma forgot_password_active:
  assumes "connectOk e" "findOk e" "saveOk e" "map_of fs ''email'' = Some (JStr a)" "a \<noteq> []"
    and "findFrom 0 (\<lambda>u. email u = castEmail l (toLowerCase l a)) store = Some d" "isActive (doc d)"
    and "schemaValid (doc d)"
  shows "forgot_password_POST l e (JObj fs) store =
     ((succeeded genericMessage)
        \<lparr>resetToken := if NODE_ENV e = Some ''development''
                       then Some (hex (randomBytes e 32)) else None\<rparr>,
      store[docId d := (doc d)\<lparr>resetPasswordToken := Some (sha256 l (hex (randomBytes e 32))),
                               resetPasswordExpires := Some (clock e 0 + 600000)\<rparr>])"
proof -
  obtain t d1 where g: "generatePasswordResetToken l e d = (t, d1)" by (cases "generatePasswordResetToken l e d")
  from findFrom0_Some[OF assms(6)] have clean: "\<not> isModified d ''password''"
    by (simp add: isModified_def)
  have t: "t = hex (randomBytes e 32)" using generate_fst[of l e d] g by simp
  have d1: "doc d1 = (doc d)\<lparr>resetPasswordToken := Some (sha256 l (hex (randomBytes e 32))),
             resetPasswordExpires := Some (clock e 0 + 600000)\<rparr>" "docId d1 = docId d"
    "\<not> isModified d1 ''password''"
    using generate_doc[of l e d] generate_docId[of l e d] generate_isModified_password[of l e d] g clean
    by simp_all
  have v: "schemaValid (doc d1)" unfolding d1(1) schemaValid_token_fields using assms(8) .
  have s: "save l e d1 store = Inr (store[docId d1 := doc d1])"
    using save_clean_password[OF d1(3) assms(3) v] .
  show ?thesis using assms(1-7) g s t d1
    by (simp add: forgot_password_POST_def forgot_password_try_def findOne_def)
qed

lemma forgot_password_active_failing:
  assumes "connectOk e" "findOk e" "map_of fs ''email'' = Some (JStr a)" "a \<noteq> []"
    and "findFrom 0 (\<lambda>u. email u = castEmail l (toLowerCase l a)) store = Some d" "isActive (doc d)"
    and "\<not> (saveOk e \<and> schemaValid (doc d))"
  shows "forgot_password_POST l e (JObj fs) store =
     (failure 500 ''Failed to process forgot password request'', store)"
proof -
  obtain t d1 where g: "generatePasswordResetToken l e d = (t, d1)" by (cases "generatePasswordResetToken l e d")
  have "doc d1 = (doc d)\<lparr>resetPasswordToken := Some (sha256 l (hex (randomBytes e 32))),
             resetPasswordExpires := Some (clock e 0 + 600000)\<rparr>"
    using generate_doc[of l e d] g by simp
  then have "schemaValid (doc d1) = schemaValid (doc d)" by (simp add: schemaValid_token_fields)
  then have "\<not> (saveOk e \<and> schemaValid (doc d1))" using assms(7) by simp
  from save_fails[OF this, of l store] obtain x where "save l e d1 store = Inl x" by blast
  then show ?thesis using assms(1-6) g
    by (simp add: forgot_password_POST_def forgot_password_try_def findOne_def)
qed

lemma hashedToken_Inr: "hashedToken l v = Inr h \<Longrightarrow> \<exists>t. v = Some (JStr t) \<and> h = sha256 l t"
  by (cases "(l, v)" rule: hashedToken.cases) auto

lemma reset_password_success:
  assumes "reset_password_POST l e (JObj fs) store = (r, store1)" and "success r"
  shows "\<exists>t secret d. map_of fs ''token'' = Some (JStr t)
      \<and> castString (map_of fs ''password'') = Inr secret
      \<and> connectOk e \<and> findOk e \<and> truthy (map_of fs ''token'')
      \<and> truthy (map_of fs ''password'') \<and> truthy (map_of fs ''confirmPassword'')
      \<and> strict_eq (map_of fs ''password'') (map_of fs ''confirmPassword'')
      \<and> length_less (map_of fs ''password'') 6 = Inr False
      \<and> findFrom 0 (validResetToken (sha256 l t) (clock e 0)) store = Some d
      \<and> save l e (set_lastLoginAt (Some (clock e 1))
            (clearPasswordResetToken (set_isFirstLogin False (set_password secret d)))) store
          = Inr store1
      \<and> r = succeeded ''Password has been reset successfully''"
  using assms
  by (auto simp add: reset_password_POST_def reset_password_try_def failure_def findOne_def Let_def
      split: if_splits sum.splits option.splits bool.splits dest!: hashedToken_Inr)

lemma reset_assignments_doc:
  "doc (set_lastLoginAt (Some now)
      (clearPasswordResetToken (set_isFirstLogin False (set_password secret d)))) =
   (doc d)\<lparr>password := secret, isFirstLogin := False, resetPasswordToken := None,
           resetPasswordExpires := None, lastLoginAt := Some now\<rparr>"
  by (simp add: set_lastLoginAt_def clearPasswordResetToken_def set_isFirstLogin_def
      set_password_def set_resetPasswordToken_def set_resetPasswordExpires_def markModified_def)

lemma reset_assignments_docId:
  "docId (set_lastLoginAt (Some now)
      (clearPasswordResetToken (set_isFirstLogin False (set_password secret d)))) = docId d"
  by (simp add: set_lastLoginAt_def clearPasswordResetToken_def set_isFirstLogin_def
      set_password_def set_resetPasswordToken_def set_resetPasswordExpires_def markModified_def)

lemma reset_assignments_isModified:
  "modifiedPaths d = {} \<Longrightarrow>
   isModified (set_lastLoginAt (Some now)
      (clearPasswordResetToken (set_isFirstLogin False (set_password secret d)))) ''password''
   = (secret \<noteq> password (doc d))"
  by (simp add: set_lastLoginAt_def clearPasswordResetToken_def set_isFirstLogin_def
      set_password_def set_resetPasswordToken_def set_resetPasswordExpires_def markModified_def
      isModified_def)

lemma save_Inr:
  assumes "save l e d store = Inr store1"
  shows "saveOk e \<and> schemaValid (doc d)
      \<and> (\<exists>stored. store1 = store[docId d := (doc d)\<lparr>password := stored\<rparr>]
      \<and> (isModified d ''password'' \<longrightarrow>
            (\<exists>salt. genSalt e 12 = Some salt \<and> bcryptHash l (password (doc d)) salt = Some stored))
      \<and> (\<not> isModified d ''password'' \<longrightarrow> stored = password (doc d)))"
  using assms
  by (auto simp add: save_def validateBeforeSave_def pre_save_def
      split: if_splits sum.splits option.splits)

lemma reset_password_success_store:
  assumes "reset_password_POST l e (JObj fs) store = (r, store1)" and "success r"
  shows "\<exists>i secret stored. i < length store
      \<and> castString (map_of fs ''password'') = Inr secret
      \<and> (\<exists>t. map_of fs ''token'' = Some (JStr t)
              \<and> validResetToken (sha256 l t) (clock e 0) (store ! i))
      \<and> store1 = store[i := (store ! i)\<lparr>password := stored, isFirstLogin := False,
                    resetPasswordToken := None, resetPasswordExpires := None,
                    lastLoginAt := Some (clock e 1)\<rparr>]
      \<and> (secret \<noteq> password (store ! i) \<longrightarrow>
            (\<exists>salt. genSalt e 12 = Some salt \<and> bcryptHash l secret salt = Some stored))
      \<and> (secret = password (store ! i) \<longrightarrow> stored = password (store ! i))"
proof -
  from reset_password_success[OF assms] obtain t secret d where
    tok: "map_of fs ''token'' = Some (JStr t)"
    and sec: "castString (map_of fs ''password'') = Inr secret"
    and fnd: "findFrom 0 (validResetToken (sha256 l t) (clock e 0)) store = Some d"
    and sav: "save l e (set_lastLoginAt (Some (clock e 1))
            (clearPasswordResetToken (set_isFirstLogin False (set_password secret d)))) store
          = Inr store1"
    by blast
  define d4 where "d4 = set_lastLoginAt (Some (clock e 1))
            (clearPasswordResetToken (set_isFirstLogin False (set_password secret d)))"
  from findFrom0_Some[OF fnd] have d: "docId d < length store" "store ! docId d = doc d"
    "validResetToken (sha256 l t) (clock e 0) (doc d)" "modifiedPaths d = {}" by auto
  have m: "isModified d4 ''password'' = (secret \<noteq> password (doc d))"
    unfolding d4_def using reset_assignments_isModified[OF d(4)] .
  have dd: "doc d4 = (doc d)\<lparr>password := secret, isFirstLogin := False, resetPasswordToken := None,
           resetPasswordExpires := None, lastLoginAt := Some (clock e 1)\<rparr>"
    unfolding d4_def using reset_assignments_doc .
  have pw: "password (doc d4) = secret" using dd by simp
  have di: "docId d4 = docId d" unfolding d4_def using reset_assignments_docId .
  from sav have "save l e d4 store = Inr store1" unfolding d4_def .
  from save_Inr[OF this] obtain stored where
    s1: "store1 = store[docId d4 := (doc d4)\<lparr>password := stored\<rparr>]"
    and s2: "isModified d4 ''password'' \<longrightarrow>
              (\<exists>salt. genSalt e 12 = Some salt \<and> bcryptHash l (password (doc d4)) salt = Some stored)"
    and s3: "\<not> isModified d4 ''password'' \<longrightarrow> stored = password (doc d4)"
    by blast
  have "(doc d4)\<lparr>password := stored\<rparr> = (doc d)\<lparr>password := stored, isFirstLogin := False,
                    resetPasswordToken := None, resetPasswordExpires := None,
                    lastLoginAt := Some (clock e 1)\<rparr>"
    unfolding dd by (cases "doc d") simp
  then have st: "store1 = store[docId d := (store ! docId d)\<lparr>password := stored,
                    isFirstLogin := False,
                    resetPasswordToken := None, resetPasswordExpires := None,
                    lastLoginAt := Some (clock e 1)\<rparr>]"
    using s1 di d(2) by simp
  have h1: "secret \<noteq> password (store ! docId d) \<longrightarrow>
            (\<exists>salt. genSalt e 12 = Some salt \<and> bcryptHash l secret salt = Some stored)"
    using s2 unfolding m pw d(2) .
  have h2: "secret = password (store ! docId d) \<longrightarrow> stored = password (store ! docId d)"
    using s3 unfolding m pw d(2) by simp
  have v: "validResetToken (sha256 l t) (clock e 0) (store ! docId d)"
    using d(3) unfolding d(2) .
  show ?thesis
    apply (rule exI[of _ "docId d"])
    apply (rule exI[of _ secret])
    apply (rule exI[of _ stored])
    using d(1) sec tok v st h1 h2 by blast
qed


lemma reset_password_query:
  assumes "connectOk e" and "findOk e" and "map_of fs ''token'' = Some (JStr t)"
    and "truthy (map_of fs ''token'')"
    and "truthy (map_of fs ''password'')" and "truthy (map_of fs ''confirmPassword'')"
    and "strict_eq (map_of fs ''password'') (map_of fs ''confirmPassword'')"
    and "length_less (map_of fs ''password'') 6 = Inr False"
  shows "reset_password_POST l e (JObj fs) store =
     (case findFrom 0 (validResetToken (sha256 l t) (clock e 0)) store of
        None \<Rightarrow> (failure 400 ''Invalid or expired reset token'', store)
      | Some d \<Rightarrow>
          (case castString (map_of fs ''password'') of
             Inl x \<Rightarrow> (failure 500 ''Failed to reset password'', store)
           | Inr secret \<Rightarrow>
               (case save l e (set_lastLoginAt (Some (clock e 1))
                       (clearPasswordResetToken (set_isFirstLogin False (set_password secret d))))
                     store of
                  Inl x \<Rightarrow> (failure 500 ''Failed to reset password'', store)
                | Inr store1 \<Rightarrow> (succeeded ''Password has been reset successfully'', store1))))"
  using assms
  by (simp add: reset_password_POST_def reset_password_try_def findOne_def Let_def
      split: sum.splits option.splits)

lemma sample_email_valid: "validEmail ''alice@x.com''"
  by (simp add: validEmail_def emailPattern_def RPlus_def ROpt_def isWordChar_def)

lemma sample_name_valid: "validName ''Alice''"
  by (simp add: validName_def)

lemmas eval_defs = sample_email_valid sample_name_valid schemaValid_def validPassword_def
  reset_password_POST_def reset_password_try_def findOne_def validResetToken_def
  set_lastLoginAt_def clearPasswordResetToken_def set_isFirstLogin_def set_password_def
  set_resetPasswordToken_def set_resetPasswordExpires_def markModified_def isModified_def
  save_def validateBeforeSave_def pre_save_def succeeded_def failure_def
  sampleEnv_def sampleLib_def alice_def aliceWithToken_def resetBody_def

lemma generate_valid_iff:
  assumes "generatePasswordResetToken l e d = (t, d1)"
  shows "validResetToken (sha256 l t) now (doc d1) = (now < clock e 0 + 600000)"
  using generate_fst[of l e d] generate_doc[of l e d] assms
  by (simp add: validResetToken_def)

lemma reset_password_query_strings:
  assumes "connectOk e" and "findOk e" and "map_of fs ''token'' = Some (JStr t)" and "t \<noteq> []"
    and "map_of fs ''password'' = Some (JStr p)" and "map_of fs ''confirmPassword'' = Some (JStr p)"
    and "6 \<le> length p"
  shows "reset_password_POST l e (JObj fs) store =
     (case findFrom 0 (validResetToken (sha256 l t) (clock e 0)) store of
        None \<Rightarrow> (failure 400 ''Invalid or expired reset token'', store)
      | Some d \<Rightarrow>
          (case save l e (set_lastLoginAt (Some (clock e 1))
                  (clearPasswordResetToken (set_isFirstLogin False (set_password p d))))
                store of
             Inl x \<Rightarrow> (failure 500 ''Failed to reset password'', store)
           | Inr store1 \<Rightarrow> (succeeded ''Password has been reset successfully'', store1)))"
proof -
  have p: "p \<noteq> []" using assms(7) by auto
  have v: "truthy (map_of fs ''token'')" "truthy (map_of fs ''password'')"
    "truthy (map_of fs ''confirmPassword'')"
    "strict_eq (map_of fs ''password'') (map_of fs ''confirmPassword'')"
    "length_less (map_of fs ''password'') 6 = Inr False"
    using assms(3-7) p by auto
  show ?thesis
    using reset_password_query[OF assms(1,2,3) v, of l store] assms(5)
    by (simp split: option.splits)
qed

lemma reset_password_rejects_iff:
  assumes "connectOk e" and "findOk e" and "map_of fs ''token'' = Some (JStr t)" and "t \<noteq> []"
    and "map_of fs ''password'' = Some (JStr p)" and "map_of fs ''confirmPassword'' = Some (JStr p)"
    and "6 \<le> length p"
  shows "(error (fst (reset_password_POST l e (JObj fs) store))
            = Some ''Invalid or expired reset token'')
       = (\<forall>u\<in>set store. \<not> validResetToken (sha256 l t) (clock e 0) u)"
proof -
  have p: "p \<noteq> []" using assms(7) by auto
  note q = reset_password_query_strings[OF assms, of l store]
  show ?thesis
  proof (cases "findFrom 0 (validResetToken (sha256 l t) (clock e 0)) store")
    case None
    then have "\<forall>u\<in>set store. \<not> validResetToken (sha256 l t) (clock e 0) u"
      using findFrom_None_iff[of 0 "validResetToken (sha256 l t) (clock e 0)" store] by simp
    then show ?thesis using q None by (simp add: failure_def)
  next
    case (Some d)
    then have "\<not> (\<forall>u\<in>set store. \<not> validResetToken (sha256 l t) (clock e 0) u)"
      using findFrom_None_iff[of 0 "validResetToken (sha256 l t) (clock e 0)" store] by simp
    then show ?thesis using q Some
      by (simp add: failure_def succeeded_def split: sum.splits)
  qed
qed

lemma reset_password_accepts:
  assumes "connectOk e" and "findOk e" and "saveOk e"
    and "map_of fs ''token'' = Some (JStr t)" and "t \<noteq> []"
    and "map_of fs ''password'' = Some (JStr p)" and "map_of fs ''confirmPassword'' = Some (JStr p)"
    and "6 \<le> length p"
    and "genSalt e 12 = Some salt" and "bcryptHash l p salt = Some h"
    and "\<exists>u\<in>set store. validResetToken (sha256 l t) (clock e 0) u"
    and "\<forall>u\<in>set store. validResetToken (sha256 l t) (clock e 0) u
            \<longrightarrow> validName (name u) \<and> validEmail (email u)"
  shows "fst (reset_password_POST l e (JObj fs) store) =
            succeeded ''Password has been reset successfully''"
proof -
  have p: "p \<noteq> []" using assms(8) by auto
  from assms(11) obtain d where d: "findFrom 0 (validResetToken (sha256 l t) (clock e 0)) store = Some d"
    using findFrom_None_iff[of 0 "validResetToken (sha256 l t) (clock e 0)" store] by auto
  from findFrom0_Some[OF d] have "doc d \<in> set store"
    "validResetToken (sha256 l t) (clock e 0) (doc d)"
    using nth_mem[of "docId d" store] by auto
  with assms(12) have nv: "validName (name (doc d))" "validEmail (email (doc d))" by auto
  define d4 where "d4 = set_lastLoginAt (Some (clock e 1))
                       (clearPasswordResetToken (set_isFirstLogin False (set_password p d)))"
  have dd: "doc d4 = (doc d)\<lparr>password := p, isFirstLogin := False, resetPasswordToken := None,
           resetPasswordExpires := None, lastLoginAt := Some (clock e 1)\<rparr>"
    unfolding d4_def by (rule reset_assignments_doc)
  have pw: "password (doc d4) = p" unfolding dd by simp
  have sv: "schemaValid (doc d4)"
    unfolding dd using nv assms(8) p by (simp add: schemaValid_def validPassword_def)
  have "\<exists>s. save l e d4 store = Inr s"
    using assms(3,9,10) pw sv
    by (simp add: save_def validateBeforeSave_def pre_save_def)
  then obtain s where s: "save l e d4 store = Inr s" by blast
  show ?thesis
    using reset_password_query_strings[OF assms(1,2,4,5,6,7,8), of l store] d s
    by (simp add: d4_def)
qed

lemma length_randomBytes: "length (randomBytes e n) = n"
  by (simp add: randomBytes_def)

lemma length_hex: "length (hex bs) = 2 * length bs"
  by (induction bs) (simp_all add: hex_def)

lemma generated_token_length: "length (hex (randomBytes e 32)) = 64"
  by (simp add: length_hex length_randomBytes)

lemma generated_token_nonempty: "hex (randomBytes e 32) \<noteq> []"
  using generated_token_length[of e] by auto

lemma findFrom_update:
  "findFrom k q us = Some d \<Longrightarrow> q x \<Longrightarrow>
     findFrom k q (us[docId d - k := x]) = Some \<lparr>docId = docId d, doc = x, modifiedPaths = {}\<rparr>"
proof (induction us arbitrary: k)
  case Nil
  then show ?case by simp
next
  case (Cons u us)
  show ?case
  proof (cases "q u")
    case True
    with Cons.prems show ?thesis by auto
  next
    case False
    with Cons.prems have f: "findFrom (Suc k) q us = Some d" by simp
    from findFrom_Some[OF f] have "Suc k \<le> docId d" by simp
    then have eq: "docId d - k = Suc (docId d - Suc k)" by simp
    from Cons.IH[OF f Cons.prems(2)] show ?thesis using False eq by simp
  qed
qed

lemma forgot_password_active_store:
  assumes "connectOk e" "findOk e" "saveOk e" "map_of fs ''email'' = Some (JStr a)" "a \<noteq> []"
    and "findFrom 0 (\<lambda>u. email u = castEmail l (toLowerCase l a)) store = Some d" "isActive (doc d)"
    and "schemaValid (doc d)"
  shows "snd (forgot_password_POST l e (JObj fs) store) =
      store[docId d := (doc d)\<lparr>resetPasswordToken := Some (sha256 l (hex (randomBytes e 32))),
                               resetPasswordExpires := Some (clock e 0 + 600000)\<rparr>]"
  using forgot_password_active[OF assms] by simp

lemma sample_token_7: "hex (randomBytes sampleEnv 32) =
   ''0707070707070707070707070707070707070707070707070707070707070707''"
  by (simp add: randomBytes_def hex_def hexDigit_def sampleEnv_def upt_rec)

lemma sample_token_9:
  "hex (randomBytes (sampleEnv\<lparr>clock := (\<lambda>k. 1200000), entropy := (\<lambda>k. 9)\<rparr>) 32) =
   ''0909090909090909090909090909090909090909090909090909090909090909''"
  by (simp add: randomBytes_def hex_def hexDigit_def sampleEnv_def upt_rec)

lemma clear_doc:
  "doc (clearPasswordResetToken d) =
     (doc d)\<lparr>resetPasswordToken := None, resetPasswordExpires := None\<rparr>"
  by (simp add: clearPasswordResetToken_def set_resetPasswordToken_def
      set_resetPasswordExpires_def markModified_def)

lemma list_all_update:
  "list_all P xs \<Longrightarrow> P x \<Longrightarrow> list_all P (xs[i := x])"
  by (induction xs arbitrary: i) (auto split: nat.splits)

lemma generate_paired:
  "generatePasswordResetToken l e d = (t, d1) \<Longrightarrow> tokenPaired (doc d1)"
  using generate_doc[of l e d] by (simp add: tokenPaired_def)

lemma save_preserves_paired:
  assumes "save l e d store = Inr store1" and "list_all tokenPaired store"
    and "tokenPaired (doc d)"
  shows "list_all tokenPaired store1"
proof -
  from save_Inr[OF assms(1)] obtain stored where
    "store1 = store[docId d := (doc d)\<lparr>password := stored\<rparr>]" by blast
  moreover have "tokenPaired ((doc d)\<lparr>password := stored\<rparr>)"
    using assms(3) by (simp add: tokenPaired_def)
  ultimately show ?thesis using assms(2) by (simp add: list_all_update)
qed

lemma forgot_password_preserves_paired:
  assumes "list_all tokenPaired store"
  shows "list_all tokenPaired (snd (forgot_password_POST l e body store))"
proof (cases "forgot_password_try l e body store")
  case (Inl x)
  then show ?thesis using assms by (simp add: forgot_password_POST_def)
next
  case (Inr r)
  then have eq: "snd (forgot_password_POST l e body store) = snd r"
    by (simp add: forgot_password_POST_def)
  from Inr assms show ?thesis unfolding eq
    by (auto simp add: forgot_password_try_def findOne_def Let_def
        split: if_splits sum.splits option.splits prod.splits
        dest: save_preserves_paired generate_paired)
qed

lemma reset_password_preserves_paired:
  assumes "list_all tokenPaired store"
  shows "list_all tokenPaired (snd (reset_password_POST l e body store))"
proof (cases "reset_password_try l e body store")
  case (Inl x)
  then show ?thesis using assms by (simp add: reset_password_POST_def)
next
  case (Inr r)
  then have eq: "snd (reset_password_POST l e body store) = snd r"
    by (simp add: reset_password_POST_def)
  have p: "\<And>now secret d. tokenPaired (doc (set_lastLoginAt (Some now)
            (clearPasswordResetToken (set_isFirstLogin False (set_password secret d)))))"
    by (simp add: reset_assignments_doc tokenPaired_def)
  from Inr assms show ?thesis unfolding eq
    by (auto simp add: reset_password_try_def findOne_def Let_def
        split: if_splits sum.splits option.splits prod.splits bool.splits
        dest: save_preserves_paired[OF _ _ p])
qed

lemma sampleLib_bcrypt_differs:
  "\<forall>plain s h. bcryptHash sampleLib plain s = Some h \<longrightarrow> h \<noteq> plain"
proof (intro allI impI)
  fix plain s h assume "bcryptHash sampleLib plain s = Some h"
  then have "h = ''$2a$12$'' @ s @ plain" by (simp add: sampleLib_def)
  then have "length h = 7 + length s + length plain" by simp
  then show "h \<noteq> plain" by auto
qed

lemma authenticate_first_login:
  assumes "findFrom 0 (\<lambda>u. email u = toLowerCase l address) store = Some d"
    and "isFirstLogin (doc d)" and "isActive (doc d)" and "comparePassword cmp (doc d) secret"
  shows "authenticate l e cmp sign address secret store =
     (PasswordResetRequired (hex (randomBytes e 32)),
      store[docId d := (doc d)\<lparr>resetPasswordToken := Some (sha256 l (hex (randomBytes e 32))),
                               resetPasswordExpires := Some (clock e 0 + 600000)\<rparr>])"
proof -
  obtain t d1 where g: "generatePasswordResetToken l e d = (t, d1)"
    by (cases "generatePasswordResetToken l e d")
  have "t = hex (randomBytes e 32)" "docId d1 = docId d"
    "doc d1 = (doc d)\<lparr>resetPasswordToken := Some (sha256 l (hex (randomBytes e 32))),
                               resetPasswordExpires := Some (clock e 0 + 600000)\<rparr>"
    using g generate_fst[of l e d] generate_docId[of l e d] generate_doc[of l e d] by simp_all
  then show ?thesis using assms g by (simp add: authenticate_def)
qed

lemma authenticate_never_bearer:
  assumes "findFrom 0 (\<lambda>u. email u = toLowerCase l address) store = Some d"
    and "isFirstLogin (doc d)"
  shows "fst (authenticate l e cmp sign address secret store) \<noteq> Authenticated bearer"
  using assms by (simp add: authenticate_def split: prod.splits)

lemma handleSubmit_reset_required:
  assumes "formEmail \<noteq> []" and "formPassword \<noteq> []"
    and "post formEmail formPassword = login_response (PasswordResetRequired token)"
  shows "handleSubmit post formEmail formPassword c =
     c\<lparr>loading := False, formError := JStr [],
       pushed := (''/reset-password?token='' @ token @ ''&first=true'') # pushed c\<rparr>"
  using assms
  by (simp add: handleSubmit_def handleSubmit_try_def login_response_def toString_def Let_def)

subsection \<open>Validation precedes every access to the accounts\<close>

text \<open>
  C8. \<^verbatim>\<open>POST /reset-password\<close>, once connected, answers a request whose token,
  password or confirmation is missing (absent, null or empty), whose password differs
  from its confirmation, or whose password is shorter than 6 code units with status 400,
  \<^verbatim>\<open>success: false\<close> and the corresponding reason, and leaves the store as it was.
  The answer is fixed by the connection and the body alone: it is the same for every
  store and also when a query or a write would fail, hence no account is looked up
  or modified. The three reasons apply in the order of the source: missing fields
  first, then the mismatch, then the length.
\<close>

theorem reset_password_validation:
  assumes "connectOk e"
  shows
   "((\<not> truthy (map_of fs ''token'') \<or> \<not> truthy (map_of fs ''password'')
       \<or> \<not> truthy (map_of fs ''confirmPassword'')) \<longrightarrow>
      reset_password_POST l e (JObj fs) store =
        (\<lparr>status = 400, success = False, message = None,
          error = Some ''Token, password, and confirm password are required'',
          resetToken = None\<rparr>, store))
    \<and> (truthy (map_of fs ''token'') \<and> truthy (map_of fs ''password'')
         \<and> truthy (map_of fs ''confirmPassword'')
         \<and> \<not> strict_eq (map_of fs ''password'') (map_of fs ''confirmPassword'') \<longrightarrow>
      reset_password_POST l e (JObj fs) store =
        (\<lparr>status = 400, success = False, message = None,
          error = Some ''Passwords do not match'', resetToken = None\<rparr>, store))
    \<and> (truthy (map_of fs ''token'') \<and> truthy (map_of fs ''confirmPassword'')
         \<and> strict_eq (map_of fs ''password'') (map_of fs ''confirmPassword'')
         \<and> map_of fs ''password'' = Some (JStr secret) \<and> secret \<noteq> [] \<and> length secret < 6 \<longrightarrow>
      reset_password_POST l e (JObj fs) store =
        (\<lparr>status = 400, success = False, message = None,
          error = Some ''Password must be at least 6 characters long'',
          resetToken = None\<rparr>, store))
    \<and> ((\<not> truthy (map_of fs ''token'') \<or> \<not> truthy (map_of fs ''password'')
         \<or> \<not> truthy (map_of fs ''confirmPassword'')
         \<or> \<not> strict_eq (map_of fs ''password'') (map_of fs ''confirmPassword'')
         \<or> (map_of fs ''password'' = Some (JStr secret) \<and> length secret < 6)) \<longrightarrow>
      status (fst (reset_password_POST l e (JObj fs) store)) = 400
      \<and> \<not> success (fst (reset_password_POST l e (JObj fs) store))
      \<and> snd (reset_password_POST l e (JObj fs) store) = store)"
  using assms
  by (auto simp add: reset_password_POST_def reset_password_try_def failure_def)

theorem reset_password_validation_witness:
  "connectOk (sampleEnv\<lparr>findOk := False, saveOk := False\<rparr>)
   \<and> reset_password_POST sampleLib (sampleEnv\<lparr>findOk := False, saveOk := False\<rparr>)
        (JObj [(''password'', JStr ''secret1''), (''confirmPassword'', JStr ''secret1'')])
        [aliceWithToken] =
        (\<lparr>status = 400, success = False, message = None,
          error = Some ''Token, password, and confirm password are required'',
          resetToken = None\<rparr>, [aliceWithToken])
   \<and> reset_password_POST sampleLib (sampleEnv\<lparr>findOk := False, saveOk := False\<rparr>)
        (resetBody ''r1'' ''secret1'' ''secret2'') [aliceWithToken] =
        (\<lparr>status = 400, success = False, message = None,
          error = Some ''Passwords do not match'', resetToken = None\<rparr>, [aliceWithToken])
   \<and> reset_password_POST sampleLib (sampleEnv\<lparr>findOk := False, saveOk := False\<rparr>)
        (resetBody ''r1'' ''short'' ''short'') [aliceWithToken] =
        (\<lparr>status = 400, success = False, message = None,
          error = Some ''Password must be at least 6 characters long'',
          resetToken = None\<rparr>, [aliceWithToken])"
  using
    reset_password_validation
      [where e = "sampleEnv\<lparr>findOk := False, saveOk := False\<rparr>"
         and fs = "[(''password'', JStr ''secret1''), (''confirmPassword'', JStr ''secret1'')]"
         and secret = "''x''" and l = sampleLib and store = "[aliceWithToken]"]
    reset_password_validation
      [where e = "sampleEnv\<lparr>findOk := False, saveOk := False\<rparr>"
         and fs = "[(''token'', JStr ''r1''), (''password'', JStr ''secret1''), (''confirmPassword'', JStr ''secret2'')]"
         and secret = "''x''" and l = sampleLib and store = "[aliceWithToken]"]
    reset_password_validation
      [where e = "sampleEnv\<lparr>findOk := False, saveOk := False\<rparr>"
         and fs = "[(''token'', JStr ''r1''), (''password'', JStr ''short''), (''confirmPassword'', JStr ''short'')]"
         and secret = "''short''" and l = sampleLib and store = "[aliceWithToken]"]
  by (simp add: sampleEnv_def resetBody_def)

text \<open>
  C10. \<^verbatim>\<open>POST /forgot-password\<close>, once connected, answers a body whose email is
  absent, null or empty with status 400, \<^verbatim>\<open>success: false\<close> and the error
  \<open>''Email is required''\<close>; the store is not queried (the answer does not depend on
  it, nor on whether a query would succeed) and is left as it was.
\<close>

theorem forgot_password_email_required:
  assumes "connectOk e" and "\<not> truthy (map_of fs ''email'')"
  shows "forgot_password_POST l e (JObj fs) store =
      (\<lparr>status = 400, success = False, message = None, error = Some ''Email is required'',
        resetToken = None\<rparr>, store)"
  using assms by (simp add: forgot_password_POST_def forgot_password_try_def failure_def)

theorem forgot_password_email_required_witness:
  "connectOk (sampleEnv\<lparr>findOk := False, saveOk := False\<rparr>)
   \<and> \<not> truthy (map_of [(''email'', JStr [])] ''email'')
   \<and> forgot_password_POST sampleLib (sampleEnv\<lparr>findOk := False, saveOk := False\<rparr>)
        (JObj [(''email'', JStr [])]) [alice] =
      (\<lparr>status = 400, success = False, message = None, error = Some ''Email is required'',
        resetToken = None\<rparr>, [alice])"
  using forgot_password_email_required
    [of "sampleEnv\<lparr>findOk := False, saveOk := False\<rparr>" "[(''email'', JStr [])]" sampleLib "[alice]"]
  by (simp add: sampleEnv_def)

subsection \<open>A reset token is used once\<close>

text \<open>
  C1. A successful \<^verbatim>\<open>POST /reset-password\<close> clears the stored token hash and the
  expiry of the matched account in the save that replaces the secret, so that account
  matches the token at no later time. A second request that presents the same token,
  served with the database reachable, finds no account and is answered with status 400
  and \<open>''Invalid or expired reset token''\<close>, leaving the store as it is. The statement
  is for stores in which no two accounts hold the hash of the presented token, as is the
  case for hashes of independently drawn 256-bit tokens.
\<close>

theorem reset_token_single_use:
  assumes "reset_password_POST l e (JObj fs) store = (r, store1)" and "success r"
    and "map_of fs ''token'' = Some (JStr t)"
    and "\<forall>i j. i < length store \<and> j < length store
             \<and> resetPasswordToken (store ! i) = Some (sha256 l t)
             \<and> resetPasswordToken (store ! j) = Some (sha256 l t) \<longrightarrow> i = j"
    and "connectOk e2" and "findOk e2"
  shows "(\<exists>i<length store. validResetToken (sha256 l t) (clock e 0) (store ! i)
            \<and> length store1 = length store
            \<and> resetPasswordToken (store1 ! i) = None \<and> resetPasswordExpires (store1 ! i) = None
            \<and> (\<forall>j. j \<noteq> i \<longrightarrow> store1 ! j = store ! j)
            \<and> (\<forall>now. \<not> validResetToken (sha256 l t) now (store1 ! i)))
       \<and> reset_password_POST l e2 (JObj fs) store1 =
           (\<lparr>status = 400, success = False, message = None,
             error = Some ''Invalid or expired reset token'', resetToken = None\<rparr>, store1)"
proof -
  from reset_password_success[OF assms(1,2)] assms(3) obtain secret d where
    valid: "truthy (map_of fs ''token'')" "truthy (map_of fs ''password'')"
      "truthy (map_of fs ''confirmPassword'')"
      "strict_eq (map_of fs ''password'') (map_of fs ''confirmPassword'')"
      "length_less (map_of fs ''password'') 6 = Inr False"
    and fnd: "findFrom 0 (validResetToken (sha256 l t) (clock e 0)) store = Some d"
    by auto
  from reset_password_success_store[OF assms(1,2)] assms(3) obtain i stored where
    i: "i < length store" "validResetToken (sha256 l t) (clock e 0) (store ! i)"
    and st: "store1 = store[i := (store ! i)\<lparr>password := stored, isFirstLogin := False,
                    resetPasswordToken := None, resetPasswordExpires := None,
                    lastLoginAt := Some (clock e 1)\<rparr>]"
    by auto
  have len: "length store1 = length store" using st by simp
  have cleared: "resetPasswordToken (store1 ! i) = None" "resetPasswordExpires (store1 ! i) = None"
    using st i(1) by simp_all
  have others: "\<forall>j. j \<noteq> i \<longrightarrow> store1 ! j = store ! j" using st by simp
  have never: "\<forall>now. \<not> validResetToken (sha256 l t) now (store1 ! i)"
    using cleared by (simp add: validResetToken_def)
  have held: "resetPasswordToken (store ! i) = Some (sha256 l t)"
    using i(2) by (simp add: validResetToken_def)
  have none: "\<forall>u\<in>set store1. \<not> validResetToken (sha256 l t) (clock e2 0) u"
  proof
    fix u assume "u \<in> set store1"
    then obtain j where j: "j < length store1" "u = store1 ! j" by (auto simp: in_set_conv_nth)
    show "\<not> validResetToken (sha256 l t) (clock e2 0) u"
    proof (cases "j = i")
      case True
      then show ?thesis using never j(2) by simp
    next
      case False
      then have "store1 ! j = store ! j" using others by simp
      moreover have "resetPasswordToken (store ! j) \<noteq> Some (sha256 l t)"
        using assms(4) held i(1) j(1) len False by auto
      ultimately show ?thesis using j(2) by (simp add: validResetToken_def)
    qed
  qed
  then have "findFrom 0 (validResetToken (sha256 l t) (clock e2 0)) store1 = None"
    by (simp add: findFrom_None_iff)
  with reset_password_query[OF assms(5,6,3) valid, of l store1]
  have "reset_password_POST l e2 (JObj fs) store1 =
          (failure 400 ''Invalid or expired reset token'', store1)" by simp
  then show ?thesis using i len cleared others never by (auto simp add: failure_def)
qed


theorem reset_token_single_use_witness:
  "success (fst (reset_password_POST sampleLib sampleEnv (resetBody ''r1'' ''newpass1'' ''newpass1'')
                   [aliceWithToken]))
   \<and> reset_password_POST sampleLib (sampleEnv\<lparr>clock := (\<lambda>k. 1000500)\<rparr>)
         (resetBody ''r1'' ''newpass1'' ''newpass1'')
         (snd (reset_password_POST sampleLib sampleEnv (resetBody ''r1'' ''newpass1'' ''newpass1'')
                 [aliceWithToken])) =
       (\<lparr>status = 400, success = False, message = None,
         error = Some ''Invalid or expired reset token'', resetToken = None\<rparr>,
        [alice\<lparr>password := ''$2a$12$saltnewpass1'', isFirstLogin := False,
               lastLoginAt := Some 1000001\<rparr>])"
proof -
  let ?fs = "[(''token'', JStr ''r1''), (''password'', JStr ''newpass1''),
              (''confirmPassword'', JStr ''newpass1'')]"
  let ?first = "reset_password_POST sampleLib sampleEnv (JObj ?fs) [aliceWithToken]"
  have run: "?first =
     (succeeded ''Password has been reset successfully'',
      [alice\<lparr>password := ''$2a$12$saltnewpass1'', isFirstLogin := False,
             lastLoginAt := Some 1000001\<rparr>])"
    by (simp add: eval_defs)
  have ok: "success (succeeded ''Password has been reset successfully'')"
    by (simp add: succeeded_def)
  have uniq: "\<forall>i j. i < length [aliceWithToken] \<and> j < length [aliceWithToken]
             \<and> resetPasswordToken ([aliceWithToken] ! i) = Some (sha256 sampleLib ''r1'')
             \<and> resetPasswordToken ([aliceWithToken] ! j) = Some (sha256 sampleLib ''r1'') \<longrightarrow> i = j"
    by simp
  from reset_token_single_use
    [where l = sampleLib and e = sampleEnv and fs = ?fs and store = "[aliceWithToken]"
       and t = "''r1''" and ?e2.0 = "sampleEnv\<lparr>clock := (\<lambda>k. 1000500)\<rparr>",
     OF run ok _ uniq]
  show ?thesis using run ok by (simp add: resetBody_def sampleEnv_def)
qed

subsection \<open>A reset token expires ten minutes after it was issued\<close>

text \<open>
  C2. An issued token is stored as its SHA-256 hash with the expiry exactly
  \<open>10 * 60 * 1000\<close> milliseconds after the clock reading of the issuance. The query of
  \<^verbatim>\<open>POST /reset-password\<close> accepts an account only if the stored hash is the hash of
  the presented token and the stored expiry is strictly greater than the current time:
  the request is answered \<open>''Invalid or expired reset token''\<close> exactly when no account
  satisfies both. Hence a token issued at \<open>T\<close> is valid exactly at the times before
  \<open>T + 10min\<close>: it is rejected at \<open>T + 10min + 1s\<close> and at \<open>T + 10min\<close>, and accepted
  at \<open>T + 9min\<close>, where the reset then succeeds if the write and the hashing succeed
  and the account's stored name and email pass the schema's validators. The route-level
  statements are for requests served with the connection and the lookup succeeding, with
  string fields that pass validation, and for a store in which only the issued account
  holds the token's hash.
\<close>

theorem reset_token_expiry:
  assumes "generatePasswordResetToken l e d = (t, d1)"
  shows "resetPasswordToken (doc d1) = Some (sha256 l t)
      \<and> resetPasswordExpires (doc d1) = Some (clock e 0 + 10 * 60 * 1000)
      \<and> (\<forall>now. validResetToken (sha256 l t) now (doc d1) = (now < clock e 0 + 10 * 60 * 1000))
      \<and> \<not> validResetToken (sha256 l t) (clock e 0 + 10 * 60 * 1000 + 1000) (doc d1)
      \<and> \<not> validResetToken (sha256 l t) (clock e 0 + 10 * 60 * 1000) (doc d1)
      \<and> validResetToken (sha256 l t) (clock e 0 + 9 * 60 * 1000) (doc d1)
      \<and> (connectOk e2 \<and> findOk e2 \<and> map_of fs ''token'' = Some (JStr t) \<and> t \<noteq> []
          \<and> map_of fs ''password'' = Some (JStr p) \<and> map_of fs ''confirmPassword'' = Some (JStr p)
          \<and> 6 \<le> length p \<longrightarrow>
           (error (fst (reset_password_POST l e2 (JObj fs) store))
              = Some ''Invalid or expired reset token'')
           = (\<not> (\<exists>u\<in>set store. resetPasswordToken u = Some (sha256 l t)
                    \<and> (\<exists>expires. resetPasswordExpires u = Some expires \<and> clock e2 0 < expires))))
      \<and> (connectOk e2 \<and> findOk e2 \<and> map_of fs ''token'' = Some (JStr t) \<and> t \<noteq> []
          \<and> map_of fs ''password'' = Some (JStr p) \<and> map_of fs ''confirmPassword'' = Some (JStr p)
          \<and> 6 \<le> length p \<and> i < length store \<and> store ! i = doc d1
          \<and> (\<forall>j<length store. j \<noteq> i \<longrightarrow> resetPasswordToken (store ! j) \<noteq> Some (sha256 l t)) \<longrightarrow>
           ((error (fst (reset_password_POST l e2 (JObj fs) store))
              = Some ''Invalid or expired reset token'')
            = (clock e 0 + 10 * 60 * 1000 \<le> clock e2 0))
           \<and> (clock e2 0 < clock e 0 + 10 * 60 * 1000 \<and> saveOk e2
                \<and> validName (name (doc d1)) \<and> validEmail (email (doc d1))
                \<and> genSalt e2 12 = Some salt \<and> bcryptHash l p salt = Some h \<longrightarrow>
                fst (reset_password_POST l e2 (JObj fs) store) =
                  \<lparr>status = 200, success = True,
                   message = Some ''Password has been reset successfully'', error = None,
                   resetToken = None\<rparr>))"
proof -
  have tk: "resetPasswordToken (doc d1) = Some (sha256 l t)"
    and ex: "resetPasswordExpires (doc d1) = Some (clock e 0 + 10 * 60 * 1000)"
    using generate_fst[of l e d] generate_doc[of l e d] assms by simp_all
  have iff: "\<And>now. validResetToken (sha256 l t) now (doc d1) = (now < clock e 0 + 10 * 60 * 1000)"
    using generate_valid_iff[OF assms] by simp
  have general: "connectOk e2 \<and> findOk e2 \<and> map_of fs ''token'' = Some (JStr t) \<and> t \<noteq> []
          \<and> map_of fs ''password'' = Some (JStr p) \<and> map_of fs ''confirmPassword'' = Some (JStr p)
          \<and> 6 \<le> length p \<longrightarrow>
           (error (fst (reset_password_POST l e2 (JObj fs) store))
              = Some ''Invalid or expired reset token'')
           = (\<not> (\<exists>u\<in>set store. resetPasswordToken u = Some (sha256 l t)
                    \<and> (\<exists>expires. resetPasswordExpires u = Some expires \<and> clock e2 0 < expires)))"
  proof
    assume a: "connectOk e2 \<and> findOk e2 \<and> map_of fs ''token'' = Some (JStr t) \<and> t \<noteq> []
          \<and> map_of fs ''password'' = Some (JStr p) \<and> map_of fs ''confirmPassword'' = Some (JStr p)
          \<and> 6 \<le> length p"
    have "\<And>u. validResetToken (sha256 l t) (clock e2 0) u =
        (resetPasswordToken u = Some (sha256 l t)
           \<and> (\<exists>expires. resetPasswordExpires u = Some expires \<and> clock e2 0 < expires))"
      by (auto simp add: validResetToken_def split: option.splits)
    then show "(error (fst (reset_password_POST l e2 (JObj fs) store))
              = Some ''Invalid or expired reset token'')
           = (\<not> (\<exists>u\<in>set store. resetPasswordToken u = Some (sha256 l t)
                    \<and> (\<exists>expires. resetPasswordExpires u = Some expires \<and> clock e2 0 < expires)))"
      using reset_password_rejects_iff[of e2 fs t p l store] a by simp
  qed
  have issued: "connectOk e2 \<and> findOk e2 \<and> map_of fs ''token'' = Some (JStr t) \<and> t \<noteq> []
          \<and> map_of fs ''password'' = Some (JStr p) \<and> map_of fs ''confirmPassword'' = Some (JStr p)
          \<and> 6 \<le> length p \<and> i < length store \<and> store ! i = doc d1
          \<and> (\<forall>j<length store. j \<noteq> i \<longrightarrow> resetPasswordToken (store ! j) \<noteq> Some (sha256 l t)) \<longrightarrow>
           ((error (fst (reset_password_POST l e2 (JObj fs) store))
              = Some ''Invalid or expired reset token'')
            = (clock e 0 + 10 * 60 * 1000 \<le> clock e2 0))
           \<and> (clock e2 0 < clock e 0 + 10 * 60 * 1000 \<and> saveOk e2
                \<and> validName (name (doc d1)) \<and> validEmail (email (doc d1))
                \<and> genSalt e2 12 = Some salt \<and> bcryptHash l p salt = Some h \<longrightarrow>
                fst (reset_password_POST l e2 (JObj fs) store) =
                  \<lparr>status = 200, success = True,
                   message = Some ''Password has been reset successfully'', error = None,
                   resetToken = None\<rparr>)"
  proof
    assume a: "connectOk e2 \<and> findOk e2 \<and> map_of fs ''token'' = Some (JStr t) \<and> t \<noteq> []
          \<and> map_of fs ''password'' = Some (JStr p) \<and> map_of fs ''confirmPassword'' = Some (JStr p)
          \<and> 6 \<le> length p \<and> i < length store \<and> store ! i = doc d1
          \<and> (\<forall>j<length store. j \<noteq> i \<longrightarrow> resetPasswordToken (store ! j) \<noteq> Some (sha256 l t))"
    have ex_iff: "(\<exists>u\<in>set store. validResetToken (sha256 l t) (clock e2 0) u)
                 = (clock e2 0 < clock e 0 + 10 * 60 * 1000)"
    proof
      assume "\<exists>u\<in>set store. validResetToken (sha256 l t) (clock e2 0) u"
      then obtain j where j: "j < length store" "validResetToken (sha256 l t) (clock e2 0) (store ! j)"
        by (auto simp: in_set_conv_nth)
      then have "resetPasswordToken (store ! j) = Some (sha256 l t)"
        by (simp add: validResetToken_def)
      with a j(1) have "j = i" by auto
      with j(2) a iff show "clock e2 0 < clock e 0 + 10 * 60 * 1000" by simp
    next
      assume "clock e2 0 < clock e 0 + 10 * 60 * 1000"
      then have "validResetToken (sha256 l t) (clock e2 0) (store ! i)" using a iff by simp
      moreover have "store ! i \<in> set store" using a nth_mem[of i store] by blast
      ultimately show "\<exists>u\<in>set store. validResetToken (sha256 l t) (clock e2 0) u" by blast
    qed
    have r1: "(error (fst (reset_password_POST l e2 (JObj fs) store))
              = Some ''Invalid or expired reset token'')
            = (clock e 0 + 10 * 60 * 1000 \<le> clock e2 0)"
      using reset_password_rejects_iff[of e2 fs t p l store] a ex_iff by auto
    have r2: "clock e2 0 < clock e 0 + 10 * 60 * 1000 \<and> saveOk e2
                \<and> validName (name (doc d1)) \<and> validEmail (email (doc d1))
                \<and> genSalt e2 12 = Some salt \<and> bcryptHash l p salt = Some h \<longrightarrow>
                fst (reset_password_POST l e2 (JObj fs) store) =
                  \<lparr>status = 200, success = True,
                   message = Some ''Password has been reset successfully'', error = None,
                   resetToken = None\<rparr>"
    proof
      assume b: "clock e2 0 < clock e 0 + 10 * 60 * 1000 \<and> saveOk e2
                \<and> validName (name (doc d1)) \<and> validEmail (email (doc d1))
                \<and> genSalt e2 12 = Some salt \<and> bcryptHash l p salt = Some h"
      have only: "\<forall>u\<in>set store. validResetToken (sha256 l t) (clock e2 0) u
                    \<longrightarrow> validName (name u) \<and> validEmail (email u)"
      proof (intro ballI impI)
        fix u assume "u \<in> set store" and v: "validResetToken (sha256 l t) (clock e2 0) u"
        then obtain j where j: "j < length store" "u = store ! j"
          by (auto simp: in_set_conv_nth)
        from v j(2) have "resetPasswordToken (store ! j) = Some (sha256 l t)"
          by (simp add: validResetToken_def)
        with a j(1) have "j = i" by auto
        with j(2) a have "u = doc d1" by simp
        with b show "validName (name u) \<and> validEmail (email u)" by simp
      qed
      from b ex_iff have found: "\<exists>u\<in>set store. validResetToken (sha256 l t) (clock e2 0) u"
        by simp
      from a have c: "connectOk e2" "findOk e2" "map_of fs ''token'' = Some (JStr t)" "t \<noteq> []"
        "map_of fs ''password'' = Some (JStr p)" "map_of fs ''confirmPassword'' = Some (JStr p)"
        "6 \<le> length p" by simp_all
      from b have s: "saveOk e2" "genSalt e2 12 = Some salt" "bcryptHash l p salt = Some h"
        by simp_all
      from reset_password_accepts[OF c(1,2) s(1) c(3-7) s(2,3) found only]
      show "fst (reset_password_POST l e2 (JObj fs) store) =
                  \<lparr>status = 200, success = True,
                   message = Some ''Password has been reset successfully'', error = None,
                   resetToken = None\<rparr>"
        by (simp add: succeeded_def)
    qed
    show "((error (fst (reset_password_POST l e2 (JObj fs) store))
              = Some ''Invalid or expired reset token'')
            = (clock e 0 + 10 * 60 * 1000 \<le> clock e2 0))
           \<and> (clock e2 0 < clock e 0 + 10 * 60 * 1000 \<and> saveOk e2
                \<and> validName (name (doc d1)) \<and> validEmail (email (doc d1))
                \<and> genSalt e2 12 = Some salt \<and> bcryptHash l p salt = Some h \<longrightarrow>
                fst (reset_password_POST l e2 (JObj fs) store) =
                  \<lparr>status = 200, success = True,
                   message = Some ''Password has been reset successfully'', error = None,
                   resetToken = None\<rparr>)"
      using r1 r2 by blast
  qed
  have inst: "\<not> validResetToken (sha256 l t) (clock e 0 + 10 * 60 * 1000 + 1000) (doc d1)"
      "\<not> validResetToken (sha256 l t) (clock e 0 + 10 * 60 * 1000) (doc d1)"
      "validResetToken (sha256 l t) (clock e 0 + 9 * 60 * 1000) (doc d1)"
    using iff by simp_all
  show ?thesis using tk ex iff inst general issued by blast
qed

theorem reset_token_expiry_witness:
  "validResetToken (sha256 sampleLib (hex (randomBytes sampleEnv 32))) 1540000
      (alice\<lparr>resetPasswordToken := Some (sha256 sampleLib (hex (randomBytes sampleEnv 32))),
             resetPasswordExpires := Some 1600000\<rparr>)
   \<and> \<not> validResetToken (sha256 sampleLib (hex (randomBytes sampleEnv 32))) 1600000
      (alice\<lparr>resetPasswordToken := Some (sha256 sampleLib (hex (randomBytes sampleEnv 32))),
             resetPasswordExpires := Some 1600000\<rparr>)
   \<and> \<not> validResetToken (sha256 sampleLib (hex (randomBytes sampleEnv 32))) 1601000
      (alice\<lparr>resetPasswordToken := Some (sha256 sampleLib (hex (randomBytes sampleEnv 32))),
             resetPasswordExpires := Some 1600000\<rparr>)
   \<and> fst (reset_password_POST sampleLib (sampleEnv\<lparr>clock := (\<lambda>k. 1540000)\<rparr>)
           (resetBody (hex (randomBytes sampleEnv 32)) ''newpass1'' ''newpass1'')
           [alice\<lparr>resetPasswordToken := Some (sha256 sampleLib (hex (randomBytes sampleEnv 32))),
                  resetPasswordExpires := Some 1600000\<rparr>]) =
        \<lparr>status = 200, success = True, message = Some ''Password has been reset successfully'',
         error = None, resetToken = None\<rparr>
   \<and> error (fst (reset_password_POST sampleLib (sampleEnv\<lparr>clock := (\<lambda>k. 1600000)\<rparr>)
           (resetBody (hex (randomBytes sampleEnv 32)) ''newpass1'' ''newpass1'')
           [alice\<lparr>resetPasswordToken := Some (sha256 sampleLib (hex (randomBytes sampleEnv 32))),
                  resetPasswordExpires := Some 1600000\<rparr>])) =
        Some ''Invalid or expired reset token''"
proof -
  let ?d = "\<lparr>docId = 0, doc = alice, modifiedPaths = {}\<rparr>"
  let ?t = "hex (randomBytes sampleEnv 32)"
  let ?u = "alice\<lparr>resetPasswordToken := Some (sha256 sampleLib ?t),
                   resetPasswordExpires := Some 1600000\<rparr>"
  let ?fs = "[(''token'', JStr ?t), (''password'', JStr ''newpass1''),
              (''confirmPassword'', JStr ''newpass1'')]"
  have g: "generatePasswordResetToken sampleLib sampleEnv ?d
             = (?t, snd (generatePasswordResetToken sampleLib sampleEnv ?d))"
    using generate_fst[of sampleLib sampleEnv ?d]
    by (metis prod.collapse)
  have u: "doc (snd (generatePasswordResetToken sampleLib sampleEnv ?d)) = ?u"
    by (simp add: generate_doc) (simp add: sampleEnv_def)
  have ne: "?t \<noteq> []" by (rule generated_token_nonempty)
  have nv: "validName (name ?u)" "validEmail (email ?u)"
    using sample_name_valid sample_email_valid by (simp_all add: alice_def)
  note th = reset_token_expiry[OF g, where fs = ?fs and p = "''newpass1''"
      and store = "[?u]" and i = 0 and salt = "''salt''" and h = "''$2a$12$saltnewpass1''"]
  show ?thesis
    using th[where ?e2.0 = "sampleEnv\<lparr>clock := (\<lambda>k. 1540000)\<rparr>"]
          th[where ?e2.0 = "sampleEnv\<lparr>clock := (\<lambda>k. 1600000)\<rparr>"] ne nv
    unfolding u
    by (simp add: sampleEnv_def sampleLib_def resetBody_def)
qed

subsection \<open>What a successful reset writes\<close>

text \<open>
  C5 (as amended). When \<^verbatim>\<open>POST /reset-password\<close> succeeds, the store changes at
  the matched account only and in one save: \<^verbatim>\<open>isFirstLogin\<close> is false, both
  reset-token fields are cleared and \<^verbatim>\<open>lastLoginAt\<close> is the second clock reading of
  the request. When the submitted secret differs from the stored password value, the
  stored password is the bcrypt hash the save hook computed for it under a salt of cost
  factor 12. When the submitted secret equals the stored password value, the assignment
  does not modify the path, the hook skips hashing, and the stored value stays as it was.
\<close>

theorem reset_password_success_single_save:
  assumes "reset_password_POST l e (JObj fs) store = (r, store1)" and "success r"
  shows "\<exists>i secret stored. i < length store
      \<and> castString (map_of fs ''password'') = Inr secret
      \<and> (\<exists>t. map_of fs ''token'' = Some (JStr t)
              \<and> validResetToken (sha256 l t) (clock e 0) (store ! i))
      \<and> store1 = store[i := (store ! i)\<lparr>password := stored, isFirstLogin := False,
                    resetPasswordToken := None, resetPasswordExpires := None,
                    lastLoginAt := Some (clock e 1)\<rparr>]
      \<and> (secret \<noteq> password (store ! i) \<longrightarrow>
            (\<exists>salt. genSalt e 12 = Some salt \<and> bcryptHash l secret salt = Some stored))
      \<and> (secret = password (store ! i) \<longrightarrow> stored = password (store ! i))"
  using reset_password_success_store[OF assms] .

theorem reset_password_success_single_save_witness:
  "success (fst (reset_password_POST sampleLib sampleEnv (resetBody ''r1'' ''newpass1'' ''newpass1'')
                   [aliceWithToken]))
   \<and> snd (reset_password_POST sampleLib sampleEnv (resetBody ''r1'' ''newpass1'' ''newpass1'')
            [aliceWithToken]) =
       [alice\<lparr>password := ''$2a$12$saltnewpass1'', isFirstLogin := False,
              lastLoginAt := Some 1000001\<rparr>]"
  using reset_password_success_single_save
    [where l = sampleLib and e = sampleEnv
       and fs = "[(''token'', JStr ''r1''), (''password'', JStr ''newpass1''),
                  (''confirmPassword'', JStr ''newpass1'')]"
       and store = "[aliceWithToken]"
       and r = "fst (reset_password_POST sampleLib sampleEnv
                      (resetBody ''r1'' ''newpass1'' ''newpass1'') [aliceWithToken])"
       and ?store1.0 = "snd (reset_password_POST sampleLib sampleEnv
                      (resetBody ''r1'' ''newpass1'' ''newpass1'') [aliceWithToken])"]
  by (simp add: eval_defs)

text \<open>
  C5 as stated promises a re-hash on every successful reset. Here the submitted
  secret is the string already stored in the password field: the reset succeeds, the
  other three updates are made, and the stored password is still that string, not the
  bcrypt hash of it.
\<close>

theorem reset_password_same_secret_counterexample:
  "reset_password_POST sampleLib sampleEnv (resetBody ''r1'' ''$2a$12$stored'' ''$2a$12$stored'')
      [aliceWithToken] =
     (\<lparr>status = 200, success = True, message = Some ''Password has been reset successfully'',
       error = None, resetToken = None\<rparr>,
      [alice\<lparr>isFirstLogin := False, lastLoginAt := Some 1000001\<rparr>])
   \<and> password (alice\<lparr>isFirstLogin := False, lastLoginAt := Some 1000001\<rparr>) = ''$2a$12$stored''
   \<and> genSalt sampleEnv 12 = Some ''salt''
   \<and> bcryptHash sampleLib ''$2a$12$stored'' ''salt'' = Some ''$2a$12$salt$2a$12$stored''"
  by (simp add: eval_defs)


subsection \<open>The answer of the forgot-password route\<close>

text \<open>
  C3 (as amended). For a request whose email is a non-empty string, with the connection
  and the lookup succeeding, \<^verbatim>\<open>POST /forgot-password\<close> answers as follows. When the
  email belongs to no account or to an inactive account, the answer is status 200,
  \<^verbatim>\<open>success: true\<close> and the one generic message, nothing else, and the store is left
  as it was. When it belongs to an active account and the save of the issued token
  succeeds (the write succeeds and the stored name, email and password pass the schema's
  validators), the answer has the same status, flag and message, and carries the
  plaintext reset token exactly when \<^verbatim>\<open>NODE_ENV\<close> is \<open>''development''\<close>. When that
  save fails, the answer is status 500 with \<open>''Failed to process forgot password
  request''\<close>. So the three runs get the identical response exactly when the active
  account's save succeeds and the mode is not development.
\<close>

theorem forgot_password_generic_response:
  assumes "connectOk e" and "findOk e"
    and "map_of fs ''email'' = Some (JStr a)" and "a \<noteq> []"
  shows "(findFrom 0 (\<lambda>u. email u = castEmail l (toLowerCase l a)) store = None \<longrightarrow>
            forgot_password_POST l e (JObj fs) store =
              (\<lparr>status = 200, success = True, message = Some genericMessage, error = None,
                resetToken = None\<rparr>, store))
       \<and> (findFrom 0 (\<lambda>u. email u = castEmail l (toLowerCase l a)) store = Some d
            \<and> \<not> isActive (doc d) \<longrightarrow>
            forgot_password_POST l e (JObj fs) store =
              (\<lparr>status = 200, success = True, message = Some genericMessage, error = None,
                resetToken = None\<rparr>, store))
       \<and> (findFrom 0 (\<lambda>u. email u = castEmail l (toLowerCase l a)) store = Some d
            \<and> isActive (doc d) \<and> saveOk e \<and> schemaValid (doc d) \<longrightarrow>
            forgot_password_POST l e (JObj fs) store =
              (\<lparr>status = 200, success = True, message = Some genericMessage, error = None,
                resetToken = if NODE_ENV e = Some ''development''
                             then Some (hex (randomBytes e 32)) else None\<rparr>,
               store[docId d :=
                 (doc d)\<lparr>resetPasswordToken := Some (sha256 l (hex (randomBytes e 32))),
                         resetPasswordExpires := Some (clock e 0 + 10 * 60 * 1000)\<rparr>]))
       \<and> (findFrom 0 (\<lambda>u. email u = castEmail l (toLowerCase l a)) store = Some d
            \<and> isActive (doc d) \<and> \<not> (saveOk e \<and> schemaValid (doc d)) \<longrightarrow>
            forgot_password_POST l e (JObj fs) store =
              (\<lparr>status = 500, success = False, message = None,
                error = Some ''Failed to process forgot password request'',
                resetToken = None\<rparr>, store))"
proof -
  have none: "findFrom 0 (\<lambda>u. email u = castEmail l (toLowerCase l a)) store = None \<longrightarrow>
            forgot_password_POST l e (JObj fs) store =
              (\<lparr>status = 200, success = True, message = Some genericMessage, error = None,
                resetToken = None\<rparr>, store)"
    using forgot_password_no_account[OF assms] by (simp add: succeeded_def)
  have inactive: "findFrom 0 (\<lambda>u. email u = castEmail l (toLowerCase l a)) store = Some d
            \<and> \<not> isActive (doc d) \<longrightarrow>
            forgot_password_POST l e (JObj fs) store =
              (\<lparr>status = 200, success = True, message = Some genericMessage, error = None,
                resetToken = None\<rparr>, store)"
    using forgot_password_inactive[OF assms, of l store d] by (simp add: succeeded_def)
  have active: "findFrom 0 (\<lambda>u. email u = castEmail l (toLowerCase l a)) store = Some d
            \<and> isActive (doc d) \<and> saveOk e \<and> schemaValid (doc d) \<longrightarrow>
            forgot_password_POST l e (JObj fs) store =
              (\<lparr>status = 200, success = True, message = Some genericMessage, error = None,
                resetToken = if NODE_ENV e = Some ''development''
                             then Some (hex (randomBytes e 32)) else None\<rparr>,
               store[docId d :=
                 (doc d)\<lparr>resetPasswordToken := Some (sha256 l (hex (randomBytes e 32))),
                         resetPasswordExpires := Some (clock e 0 + 10 * 60 * 1000)\<rparr>])"
    using forgot_password_active[OF assms(1,2) _ assms(3,4), of l store d]
    by (simp add: succeeded_def)
  have failing: "findFrom 0 (\<lambda>u. email u = castEmail l (toLowerCase l a)) store = Some d
            \<and> isActive (doc d) \<and> \<not> (saveOk e \<and> schemaValid (doc d)) \<longrightarrow>
            forgot_password_POST l e (JObj fs) store =
              (\<lparr>status = 500, success = False, message = None,
                error = Some ''Failed to process forgot password request'',
                resetToken = None\<rparr>, store)"
    using forgot_password_active_failing[OF assms, of l store d] by (simp add: failure_def)
  show ?thesis using none inactive active failing by blast
qed

theorem forgot_password_generic_response_witness:
  "fst (forgot_password_POST sampleLib sampleEnv (JObj [(''email'', JStr ''alice@x.com'')]) [alice]) =
     \<lparr>status = 200, success = True, message = Some genericMessage, error = None,
      resetToken = None\<rparr>
   \<and> fst (forgot_password_POST sampleLib sampleEnv (JObj [(''email'', JStr ''alice@x.com'')]) []) =
     \<lparr>status = 200, success = True, message = Some genericMessage, error = None,
      resetToken = None\<rparr>
   \<and> fst (forgot_password_POST sampleLib sampleEnv (JObj [(''email'', JStr ''alice@x.com'')])
           [alice\<lparr>isActive := False\<rparr>]) =
     \<lparr>status = 200, success = True, message = Some genericMessage, error = None,
      resetToken = None\<rparr>
   \<and> fst (forgot_password_POST sampleLib (sampleEnv\<lparr>NODE_ENV := Some ''development''\<rparr>)
           (JObj [(''email'', JStr ''alice@x.com'')]) [alice]) =
     \<lparr>status = 200, success = True, message = Some genericMessage, error = None,
      resetToken = Some ''0707070707070707070707070707070707070707070707070707070707070707''\<rparr>
   \<and> forgot_password_POST sampleLib (sampleEnv\<lparr>saveOk := False\<rparr>)
           (JObj [(''email'', JStr ''alice@x.com'')]) [alice] =
     (\<lparr>status = 500, success = False, message = None,
       error = Some ''Failed to process forgot password request'', resetToken = None\<rparr>, [alice])"
proof -
  let ?fs = "[(''email'', JStr ''alice@x.com'')]"
  let ?dev = "sampleEnv\<lparr>NODE_ENV := Some ''development''\<rparr>"
  let ?down = "sampleEnv\<lparr>saveOk := False\<rparr>"
  let ?d = "\<lparr>docId = 0, doc = alice, modifiedPaths = {}\<rparr>"
  let ?off = "\<lparr>docId = 0, doc = alice\<lparr>isActive := False\<rparr>, modifiedPaths = {}\<rparr>"
  have f: "findFrom 0 (\<lambda>u. email u = castEmail sampleLib (toLowerCase sampleLib ''alice@x.com''))
             [alice] = Some ?d"
    "findFrom 0 (\<lambda>u. email u = castEmail sampleLib (toLowerCase sampleLib ''alice@x.com''))
             [] = None"
    "findFrom 0 (\<lambda>u. email u = castEmail sampleLib (toLowerCase sampleLib ''alice@x.com''))
             [alice\<lparr>isActive := False\<rparr>] = Some ?off"
    by (simp_all add: sampleLib_def alice_def)
  have v: "schemaValid (doc ?d)" "isActive (doc ?d)" "\<not> isActive (doc ?off)"
    using sample_email_valid sample_name_valid
    by (simp_all add: schemaValid_def validPassword_def alice_def)
  have c: "connectOk sampleEnv" "findOk sampleEnv" "saveOk sampleEnv"
    "NODE_ENV sampleEnv \<noteq> Some ''development''"
    "connectOk ?dev" "findOk ?dev" "saveOk ?dev" "NODE_ENV ?dev = Some ''development''"
    "connectOk ?down" "findOk ?down" "\<not> saveOk ?down"
    by (simp_all add: sampleEnv_def)
  have m: "map_of ?fs ''email'' = Some (JStr ''alice@x.com'')" "''alice@x.com'' \<noteq> []"
    by simp_all
  note prod = forgot_password_generic_response[OF c(1,2) m, where l = sampleLib]
  note dev = forgot_password_generic_response[OF c(5,6) m, where l = sampleLib]
  note down = forgot_password_generic_response[OF c(9,10) m, where l = sampleLib]
  have r1: "fst (forgot_password_POST sampleLib sampleEnv (JObj ?fs) [alice]) =
     \<lparr>status = 200, success = True, message = Some genericMessage, error = None,
      resetToken = None\<rparr>"
    using prod[where store = "[alice]" and d = ?d] f(1) v c by simp
  have r2: "fst (forgot_password_POST sampleLib sampleEnv (JObj ?fs) []) =
     \<lparr>status = 200, success = True, message = Some genericMessage, error = None,
      resetToken = None\<rparr>"
    using prod[where store = "[]" and d = ?d] f(2) by simp
  have r3: "fst (forgot_password_POST sampleLib sampleEnv (JObj ?fs) [alice\<lparr>isActive := False\<rparr>]) =
     \<lparr>status = 200, success = True, message = Some genericMessage, error = None,
      resetToken = None\<rparr>"
    using prod[where store = "[alice\<lparr>isActive := False\<rparr>]" and d = ?off] f(3) v(3) by simp
  have tok: "hex (randomBytes ?dev 32) =
      ''0707070707070707070707070707070707070707070707070707070707070707''"
    using sample_token_7 by (simp add: randomBytes_def sampleEnv_def)
  have r4: "fst (forgot_password_POST sampleLib ?dev (JObj ?fs) [alice]) =
     \<lparr>status = 200, success = True, message = Some genericMessage, error = None,
      resetToken = Some ''0707070707070707070707070707070707070707070707070707070707070707''\<rparr>"
    using dev[where store = "[alice]" and d = ?d] f(1) v c tok by simp
  have r5: "forgot_password_POST sampleLib ?down (JObj ?fs) [alice] =
     (\<lparr>status = 500, success = False, message = None,
       error = Some ''Failed to process forgot password request'', resetToken = None\<rparr>, [alice])"
    using down[where store = "[alice]" and d = ?d] f(1) v c by simp
  show ?thesis using r1 r2 r3 r4 r5 by blast
qed

text \<open>
  C3 as stated fails in three ways. In development mode the response for an existing
  active account carries the reset token and the one for an unknown email does not. In
  production, when the write fails, the active account is answered 500 and the unknown
  email 200. And an active account whose stored name is too short for the schema is
  answered 500 although the write could succeed.
\<close>

theorem forgot_password_development_counterexample:
  "fst (forgot_password_POST sampleLib (sampleEnv\<lparr>NODE_ENV := Some ''development''\<rparr>)
          (JObj [(''email'', JStr ''alice@x.com'')]) [alice])
   \<noteq> fst (forgot_password_POST sampleLib (sampleEnv\<lparr>NODE_ENV := Some ''development''\<rparr>)
          (JObj [(''email'', JStr ''alice@x.com'')]) [])
   \<and> fst (forgot_password_POST sampleLib (sampleEnv\<lparr>saveOk := False\<rparr>)
          (JObj [(''email'', JStr ''alice@x.com'')]) [alice])
   \<noteq> fst (forgot_password_POST sampleLib (sampleEnv\<lparr>saveOk := False\<rparr>)
          (JObj [(''email'', JStr ''alice@x.com'')]) [])
   \<and> fst (forgot_password_POST sampleLib sampleEnv
          (JObj [(''email'', JStr ''alice@x.com'')]) [alice\<lparr>name := ''A''\<rparr>])
   \<noteq> fst (forgot_password_POST sampleLib sampleEnv
          (JObj [(''email'', JStr ''alice@x.com'')]) [])"
proof -
  let ?dev = "sampleEnv\<lparr>NODE_ENV := Some ''development''\<rparr>"
  let ?down = "sampleEnv\<lparr>saveOk := False\<rparr>"
  let ?fs = "[(''email'', JStr ''alice@x.com'')]"
  let ?d = "\<lparr>docId = 0, doc = alice, modifiedPaths = {}\<rparr>"
  let ?short = "\<lparr>docId = 0, doc = alice\<lparr>name := ''A''\<rparr>, modifiedPaths = {}\<rparr>"
  have a: "findFrom 0 (\<lambda>u. email u = castEmail sampleLib (toLowerCase sampleLib ''alice@x.com''))
             [alice] = Some ?d"
    "findFrom 0 (\<lambda>u. email u = castEmail sampleLib (toLowerCase sampleLib ''alice@x.com''))
             [alice\<lparr>name := ''A''\<rparr>] = Some ?short"
    "findFrom 0 (\<lambda>u. email u = castEmail sampleLib (toLowerCase sampleLib ''alice@x.com''))
             [] = None"
    by (simp_all add: sampleLib_def alice_def)
  have v: "schemaValid (doc ?d)" "isActive (doc ?d)" "isActive (doc ?short)"
    "\<not> (saveOk sampleEnv \<and> schemaValid (doc ?short))"
    "\<not> (saveOk ?down \<and> schemaValid (doc ?d))"
    using sample_email_valid sample_name_valid
    by (simp_all add: schemaValid_def validPassword_def validName_def alice_def sampleEnv_def)
  have c: "connectOk sampleEnv" "findOk sampleEnv" "connectOk ?dev" "findOk ?dev" "saveOk ?dev"
    "connectOk ?down" "findOk ?down" "NODE_ENV ?dev = Some ''development''"
    by (simp_all add: sampleEnv_def)
  have m: "map_of ?fs ''email'' = Some (JStr ''alice@x.com'')" "''alice@x.com'' \<noteq> []"
    by simp_all
  have d1: "resetToken (fst (forgot_password_POST sampleLib ?dev (JObj ?fs) [alice]))
          = Some (hex (randomBytes ?dev 32))"
    using forgot_password_active[OF c(3,4,5) m a(1) v(2,1)] c(8) by (simp add: succeeded_def)
  have d2: "resetToken (fst (forgot_password_POST sampleLib ?dev (JObj ?fs) [])) = None"
    using forgot_password_no_account[OF c(3,4) m a(3)] by (simp add: succeeded_def)
  have w1: "status (fst (forgot_password_POST sampleLib ?down (JObj ?fs) [alice])) = 500"
    using forgot_password_active_failing[OF c(6,7) m a(1) v(2,5)] by (simp add: failure_def)
  have w2: "status (fst (forgot_password_POST sampleLib ?down (JObj ?fs) [])) = 200"
    using forgot_password_no_account[OF c(6,7) m a(3)] by (simp add: succeeded_def)
  have n1: "status (fst (forgot_password_POST sampleLib sampleEnv (JObj ?fs) [alice\<lparr>name := ''A''\<rparr>]))
              = 500"
    using forgot_password_active_failing[OF c(1,2) m a(2) v(3,4)] by (simp add: failure_def)
  have n2: "status (fst (forgot_password_POST sampleLib sampleEnv (JObj ?fs) [])) = 200"
    using forgot_password_no_account[OF c(1,2) m a(3)] by (simp add: succeeded_def)
  have "fst (forgot_password_POST sampleLib ?dev (JObj ?fs) [alice])
          \<noteq> fst (forgot_password_POST sampleLib ?dev (JObj ?fs) [])"
    using d1 d2 by auto
  moreover have "fst (forgot_password_POST sampleLib ?down (JObj ?fs) [alice])
          \<noteq> fst (forgot_password_POST sampleLib ?down (JObj ?fs) [])"
    using w1 w2 by auto
  moreover have "fst (forgot_password_POST sampleLib sampleEnv (JObj ?fs) [alice\<lparr>name := ''A''\<rparr>])
          \<noteq> fst (forgot_password_POST sampleLib sampleEnv (JObj ?fs) [])"
    using n1 n2 by auto
  ultimately show ?thesis by blast
qed

subsection \<open>The last issued token wins\<close>

text \<open>
  C9. Issuing a token for an account that already holds one overwrites the stored hash
  and the expiry with those of the new token: the account then matches the new token
  until its own expiry and, the two hashes being different, matches the earlier token
  at no time. At the routes: after two \<^verbatim>\<open>POST /forgot-password\<close> requests for an
  active account, the account holds the second token's hash and expiry, and a
  \<^verbatim>\<open>POST /reset-password\<close> that presents the first token is answered
  \<open>''Invalid or expired reset token''\<close> whatever the time. The route-level statement
  is for requests whose connection, lookup and write succeed, for an account whose
  stored name, email and password pass the schema's validators (otherwise neither save
  writes anything), and for a store in which no other account holds the first token's
  hash.
\<close>

theorem reissue_overwrites_outstanding_token:
  assumes "generatePasswordResetToken l e1 d = (t1, d1)"
    and "generatePasswordResetToken l e2 d1 = (t2, d2)"
  shows "resetPasswordToken (doc d2) = Some (sha256 l t2)
      \<and> resetPasswordExpires (doc d2) = Some (clock e2 0 + 10 * 60 * 1000)
      \<and> (\<forall>now. validResetToken (sha256 l t2) now (doc d2) = (now < clock e2 0 + 10 * 60 * 1000))
      \<and> (sha256 l t1 \<noteq> sha256 l t2 \<longrightarrow> (\<forall>now. \<not> validResetToken (sha256 l t1) now (doc d2)))
      \<and> (connectOk e1 \<and> findOk e1 \<and> saveOk e1 \<and> connectOk e2 \<and> findOk e2 \<and> saveOk e2
          \<and> connectOk e3 \<and> findOk e3
          \<and> map_of fs ''email'' = Some (JStr a) \<and> a \<noteq> []
          \<and> findFrom 0 (\<lambda>u. email u = castEmail l (toLowerCase l a)) store = Some d \<and> isActive (doc d)
          \<and> schemaValid (doc d)
          \<and> sha256 l t1 \<noteq> sha256 l t2
          \<and> (\<forall>j<length store. j \<noteq> docId d \<longrightarrow>
                 resetPasswordToken (store ! j) \<noteq> Some (sha256 l t1))
          \<and> map_of rs ''token'' = Some (JStr t1)
          \<and> map_of rs ''password'' = Some (JStr p) \<and> map_of rs ''confirmPassword'' = Some (JStr p)
          \<and> 6 \<le> length p \<longrightarrow>
          snd (forgot_password_POST l e2 (JObj fs) (snd (forgot_password_POST l e1 (JObj fs) store)))
            = store[docId d := (doc d)\<lparr>resetPasswordToken := Some (sha256 l t2),
                                       resetPasswordExpires := Some (clock e2 0 + 10 * 60 * 1000)\<rparr>]
          \<and> reset_password_POST l e3 (JObj rs)
              (snd (forgot_password_POST l e2 (JObj fs)
                 (snd (forgot_password_POST l e1 (JObj fs) store)))) =
            (\<lparr>status = 400, success = False, message = None,
              error = Some ''Invalid or expired reset token'', resetToken = None\<rparr>,
             snd (forgot_password_POST l e2 (JObj fs)
                 (snd (forgot_password_POST l e1 (JObj fs) store)))))"
proof -
  have t1: "t1 = hex (randomBytes e1 32)" using generate_fst[of l e1 d] assms(1) by simp
  have t2: "t2 = hex (randomBytes e2 32)" using generate_fst[of l e2 d1] assms(2) by simp
  have tk: "resetPasswordToken (doc d2) = Some (sha256 l t2)"
    and ex: "resetPasswordExpires (doc d2) = Some (clock e2 0 + 10 * 60 * 1000)"
    using generate_fst[of l e2 d1] generate_doc[of l e2 d1] assms(2) by simp_all
  have iff: "\<forall>now. validResetToken (sha256 l t2) now (doc d2) = (now < clock e2 0 + 10 * 60 * 1000)"
    using generate_valid_iff[OF assms(2)] by simp
  have old: "sha256 l t1 \<noteq> sha256 l t2 \<longrightarrow> (\<forall>now. \<not> validResetToken (sha256 l t1) now (doc d2))"
    using tk by (simp add: validResetToken_def)
  have route: "connectOk e1 \<and> findOk e1 \<and> saveOk e1 \<and> connectOk e2 \<and> findOk e2 \<and> saveOk e2
          \<and> connectOk e3 \<and> findOk e3
          \<and> map_of fs ''email'' = Some (JStr a) \<and> a \<noteq> []
          \<and> findFrom 0 (\<lambda>u. email u = castEmail l (toLowerCase l a)) store = Some d \<and> isActive (doc d)
          \<and> schemaValid (doc d)
          \<and> sha256 l t1 \<noteq> sha256 l t2
          \<and> (\<forall>j<length store. j \<noteq> docId d \<longrightarrow>
                 resetPasswordToken (store ! j) \<noteq> Some (sha256 l t1))
          \<and> map_of rs ''token'' = Some (JStr t1)
          \<and> map_of rs ''password'' = Some (JStr p) \<and> map_of rs ''confirmPassword'' = Some (JStr p)
          \<and> 6 \<le> length p \<longrightarrow>
          snd (forgot_password_POST l e2 (JObj fs) (snd (forgot_password_POST l e1 (JObj fs) store)))
            = store[docId d := (doc d)\<lparr>resetPasswordToken := Some (sha256 l t2),
                                       resetPasswordExpires := Some (clock e2 0 + 10 * 60 * 1000)\<rparr>]
          \<and> reset_password_POST l e3 (JObj rs)
              (snd (forgot_password_POST l e2 (JObj fs)
                 (snd (forgot_password_POST l e1 (JObj fs) store)))) =
            (\<lparr>status = 400, success = False, message = None,
              error = Some ''Invalid or expired reset token'', resetToken = None\<rparr>,
             snd (forgot_password_POST l e2 (JObj fs)
                 (snd (forgot_password_POST l e1 (JObj fs) store))))"
  proof
    assume a: "connectOk e1 \<and> findOk e1 \<and> saveOk e1 \<and> connectOk e2 \<and> findOk e2 \<and> saveOk e2
          \<and> connectOk e3 \<and> findOk e3
          \<and> map_of fs ''email'' = Some (JStr a) \<and> a \<noteq> []
          \<and> findFrom 0 (\<lambda>u. email u = castEmail l (toLowerCase l a)) store = Some d \<and> isActive (doc d)
          \<and> schemaValid (doc d)
          \<and> sha256 l t1 \<noteq> sha256 l t2
          \<and> (\<forall>j<length store. j \<noteq> docId d \<longrightarrow>
                 resetPasswordToken (store ! j) \<noteq> Some (sha256 l t1))
          \<and> map_of rs ''token'' = Some (JStr t1)
          \<and> map_of rs ''password'' = Some (JStr p) \<and> map_of rs ''confirmPassword'' = Some (JStr p)
          \<and> 6 \<le> length p"
    define u1 where "u1 = (doc d)\<lparr>resetPasswordToken := Some (sha256 l t1),
                               resetPasswordExpires := Some (clock e1 0 + 600000)\<rparr>"
    define u2 where "u2 = (doc d)\<lparr>resetPasswordToken := Some (sha256 l t2),
                               resetPasswordExpires := Some (clock e2 0 + 600000)\<rparr>"
    define store1 where "store1 = snd (forgot_password_POST l e1 (JObj fs) store)"
    define store2 where "store2 = snd (forgot_password_POST l e2 (JObj fs) store1)"
    from a have fnd: "findFrom 0 (\<lambda>u. email u = castEmail l (toLowerCase l a)) store = Some d" by simp
    from a have neq: "sha256 l t1 \<noteq> sha256 l t2" by blast
    from a have act: "isActive (doc d)" by blast
    from a have sv: "schemaValid (doc d)" by blast
    from a have others: "\<forall>j<length store. j \<noteq> docId d \<longrightarrow>
                 resetPasswordToken (store ! j) \<noteq> Some (sha256 l t1)" by blast
    from findFrom0_Some[OF fnd] have d: "docId d < length store" "store ! docId d = doc d"
      "email (doc d) = castEmail l (toLowerCase l a)" by auto
    have s1: "store1 = store[docId d := u1]"
      unfolding store1_def u1_def t1
      using forgot_password_active_store[of e1 fs a l store d] a sv by simp
    have q1: "email u1 = castEmail l (toLowerCase l a)" "isActive u1" "schemaValid u1"
      using d(3) act sv by (simp_all add: u1_def schemaValid_token_fields)
    have fnd1: "findFrom 0 (\<lambda>u. email u = castEmail l (toLowerCase l a)) store1
                  = Some \<lparr>docId = docId d, doc = u1, modifiedPaths = {}\<rparr>"
      using findFrom_update[OF fnd, of u1] q1(1) s1 by simp
    have s2: "store2 = store[docId d := u2]"
      unfolding store2_def
      using forgot_password_active_store[of e2 fs a l store1
                "\<lparr>docId = docId d, doc = u1, modifiedPaths = {}\<rparr>"] a fnd1 q1(2,3) s1
      by (simp add: u1_def u2_def t2)
    have none: "\<forall>u\<in>set store2. \<not> validResetToken (sha256 l t1) (clock e3 0) u"
    proof
      fix u assume "u \<in> set store2"
      then obtain j where j: "j < length store2" "u = store2 ! j" by (auto simp: in_set_conv_nth)
      show "\<not> validResetToken (sha256 l t1) (clock e3 0) u"
      proof (cases "j = docId d")
        case True
        then have "u = u2" using j s2 d(1) by simp
        then show ?thesis using neq by (auto simp add: u2_def validResetToken_def)
      next
        case False
        then have "u = store ! j" using j s2 by simp
        moreover have "resetPasswordToken (store ! j) \<noteq> Some (sha256 l t1)"
          using others False j(1) s2 by simp
        ultimately show ?thesis by (simp add: validResetToken_def)
      qed
    qed
    then have nf: "findFrom 0 (validResetToken (sha256 l t1) (clock e3 0)) store2 = None"
      by (simp add: findFrom_None_iff)
    have ne: "t1 \<noteq> []" unfolding t1 by (rule generated_token_nonempty)
    have "reset_password_POST l e3 (JObj rs) store2 =
            (failure 400 ''Invalid or expired reset token'', store2)"
      using reset_password_query_strings[of e3 rs t1 p l store2] a ne nf by simp
    then show "snd (forgot_password_POST l e2 (JObj fs) (snd (forgot_password_POST l e1 (JObj fs) store)))
            = store[docId d := (doc d)\<lparr>resetPasswordToken := Some (sha256 l t2),
                                       resetPasswordExpires := Some (clock e2 0 + 10 * 60 * 1000)\<rparr>]
          \<and> reset_password_POST l e3 (JObj rs)
              (snd (forgot_password_POST l e2 (JObj fs)
                 (snd (forgot_password_POST l e1 (JObj fs) store)))) =
            (\<lparr>status = 400, success = False, message = None,
              error = Some ''Invalid or expired reset token'', resetToken = None\<rparr>,
             snd (forgot_password_POST l e2 (JObj fs)
                 (snd (forgot_password_POST l e1 (JObj fs) store))))"
      using s2 unfolding store2_def store1_def u2_def by (simp add: failure_def)
  qed
  show ?thesis using tk ex iff old route by blast
qed

theorem reissue_overwrites_outstanding_token_witness:
  "reset_password_POST sampleLib (sampleEnv\<lparr>clock := (\<lambda>k. 1300000)\<rparr>)
      (resetBody ''0707070707070707070707070707070707070707070707070707070707070707''
         ''newpass1'' ''newpass1'')
      (snd (forgot_password_POST sampleLib
              (sampleEnv\<lparr>clock := (\<lambda>k. 1200000), entropy := (\<lambda>k. 9)\<rparr>)
              (JObj [(''email'', JStr ''alice@x.com'')])
              (snd (forgot_password_POST sampleLib sampleEnv
                      (JObj [(''email'', JStr ''alice@x.com'')]) [alice])))) =
     (\<lparr>status = 400, success = False, message = None,
       error = Some ''Invalid or expired reset token'', resetToken = None\<rparr>,
      [alice\<lparr>resetPasswordToken :=
                Some ''sha256:0909090909090909090909090909090909090909090909090909090909090909'',
              resetPasswordExpires := Some 1800000\<rparr>])"
proof -
  let ?e2 = "sampleEnv\<lparr>clock := (\<lambda>k. 1200000), entropy := (\<lambda>k. 9)\<rparr>"
  let ?d = "\<lparr>docId = 0, doc = alice, modifiedPaths = {}\<rparr>"
  let ?t1 = "''0707070707070707070707070707070707070707070707070707070707070707''"
  let ?t2 = "''0909090909090909090909090909090909090909090909090909090909090909''"
  let ?d1 = "snd (generatePasswordResetToken sampleLib sampleEnv ?d)"
  let ?d2 = "snd (generatePasswordResetToken sampleLib ?e2 ?d1)"
  have g1: "generatePasswordResetToken sampleLib sampleEnv ?d = (?t1, ?d1)"
    using generate_fst[of sampleLib sampleEnv ?d] sample_token_7 by (metis prod.collapse)
  have g2: "generatePasswordResetToken sampleLib ?e2 ?d1 = (?t2, ?d2)"
    using generate_fst[of sampleLib ?e2 ?d1] sample_token_9 by (metis prod.collapse)
  have f: "findFrom 0 (\<lambda>u. email u = castEmail sampleLib (toLowerCase sampleLib ''alice@x.com'')) [alice] = Some ?d"
    by (simp add: sampleLib_def alice_def)
  have h: "sha256 sampleLib ?t1 \<noteq> sha256 sampleLib ?t2" by (simp add: sampleLib_def)
  have prem: "connectOk sampleEnv \<and> findOk sampleEnv \<and> saveOk sampleEnv \<and> connectOk ?e2
          \<and> findOk ?e2 \<and> saveOk ?e2
          \<and> connectOk (sampleEnv\<lparr>clock := (\<lambda>k. 1300000)\<rparr>)
          \<and> findOk (sampleEnv\<lparr>clock := (\<lambda>k. 1300000)\<rparr>)
          \<and> map_of [(''email'', JStr ''alice@x.com'')] ''email'' = Some (JStr ''alice@x.com'')
          \<and> ''alice@x.com'' \<noteq> []
          \<and> findFrom 0 (\<lambda>u. email u = castEmail sampleLib (toLowerCase sampleLib ''alice@x.com'')) [alice] = Some ?d
          \<and> isActive (doc ?d)
          \<and> schemaValid (doc ?d)
          \<and> sha256 sampleLib ?t1 \<noteq> sha256 sampleLib ?t2
          \<and> (\<forall>j<length [alice]. j \<noteq> docId ?d \<longrightarrow>
                 resetPasswordToken ([alice] ! j) \<noteq> Some (sha256 sampleLib ?t1))
          \<and> map_of [(''token'', JStr ?t1), (''password'', JStr ''newpass1''),
                   (''confirmPassword'', JStr ''newpass1'')] ''token'' = Some (JStr ?t1)
          \<and> map_of [(''token'', JStr ?t1), (''password'', JStr ''newpass1''),
                   (''confirmPassword'', JStr ''newpass1'')] ''password'' = Some (JStr ''newpass1'')
          \<and> map_of [(''token'', JStr ?t1), (''password'', JStr ''newpass1''),
                   (''confirmPassword'', JStr ''newpass1'')] ''confirmPassword''
                = Some (JStr ''newpass1'')
          \<and> 6 \<le> length ''newpass1''"
    using f h sample_email_valid sample_name_valid
    by (simp add: sampleEnv_def alice_def schemaValid_def validPassword_def)
  note th = reissue_overwrites_outstanding_token[OF g1 g2,
      where ?e3.0 = "sampleEnv\<lparr>clock := (\<lambda>k. 1300000)\<rparr>"
        and fs = "[(''email'', JStr ''alice@x.com'')]" and a = "''alice@x.com''"
        and store = "[alice]"
        and rs = "[(''token'', JStr ?t1), (''password'', JStr ''newpass1''),
                   (''confirmPassword'', JStr ''newpass1'')]"
        and p = "''newpass1''"]
  note concl = th[THEN conjunct2, THEN conjunct2, THEN conjunct2, THEN conjunct2, THEN mp, OF prem]
  have st: "[alice][docId ?d := (doc ?d)\<lparr>resetPasswordToken := Some (sha256 sampleLib ?t2),
               resetPasswordExpires := Some (clock ?e2 0 + 10 * 60 * 1000)\<rparr>]
          = [alice\<lparr>resetPasswordToken :=
                Some ''sha256:0909090909090909090909090909090909090909090909090909090909090909'',
              resetPasswordExpires := Some 1800000\<rparr>]"
    by (simp add: sampleLib_def sampleEnv_def)
  note stored = concl[THEN conjunct1, unfolded st]
  note answer = concl[THEN conjunct2]
  show ?thesis
    using answer unfolding stored resetBody_def .
qed

subsection \<open>The two reset-token fields go together\<close>

text \<open>
  C7. After \<open>generatePasswordResetToken\<close> both reset-token fields of the account are
  present, after \<open>clearPasswordResetToken\<close> both are absent, and each of the two route
  handlers keeps every account of the store paired, whatever the request. Issuing
  changes the account in these two fields only: the stored token is the SHA-256 hash of
  the plaintext, the expiry is the clock reading plus ten minutes, and the plaintext,
  the hex rendering (64 digits) of 32 random bytes, is the return value and is written
  to no field of the account.
\<close>

theorem reset_token_fields_paired:
  "tokenPaired (doc (snd (generatePasswordResetToken l e d)))
   \<and> tokenPaired (doc (clearPasswordResetToken d))
   \<and> doc (snd (generatePasswordResetToken l e d)) =
       (doc d)\<lparr>resetPasswordToken := Some (sha256 l (fst (generatePasswordResetToken l e d))),
               resetPasswordExpires := Some (clock e 0 + 10 * 60 * 1000)\<rparr>
   \<and> doc (clearPasswordResetToken d) =
       (doc d)\<lparr>resetPasswordToken := None, resetPasswordExpires := None\<rparr>
   \<and> fst (generatePasswordResetToken l e d) = hex (randomBytes e 32)
   \<and> length (randomBytes e 32) = 32
   \<and> length (fst (generatePasswordResetToken l e d)) = 64
   \<and> (list_all tokenPaired store \<longrightarrow>
        list_all tokenPaired (snd (forgot_password_POST l e body store))
        \<and> list_all tokenPaired (snd (reset_password_POST l e body store)))"
proof -
  have g: "doc (snd (generatePasswordResetToken l e d)) =
       (doc d)\<lparr>resetPasswordToken := Some (sha256 l (fst (generatePasswordResetToken l e d))),
               resetPasswordExpires := Some (clock e 0 + 10 * 60 * 1000)\<rparr>"
    by (simp add: generate_doc generate_fst)
  have p1: "tokenPaired (doc (snd (generatePasswordResetToken l e d)))"
    unfolding g by (simp add: tokenPaired_def)
  have p2: "tokenPaired (doc (clearPasswordResetToken d))"
    by (simp add: clear_doc tokenPaired_def)
  have n: "length (fst (generatePasswordResetToken l e d)) = 64"
    by (simp add: generate_fst generated_token_length)
  show ?thesis
    using g p1 p2 n clear_doc[of d] generate_fst[of l e d] length_randomBytes[of e 32]
      forgot_password_preserves_paired[of store l e body]
      reset_password_preserves_paired[of store l e body]
    by blast
qed

theorem reset_token_fields_paired_witness:
  "list_all tokenPaired [alice]
   \<and> list_all tokenPaired
        (snd (forgot_password_POST sampleLib sampleEnv (JObj [(''email'', JStr ''alice@x.com'')])
                [alice]))
   \<and> list_all tokenPaired [aliceWithToken]
   \<and> list_all tokenPaired
        (snd (reset_password_POST sampleLib sampleEnv (resetBody ''r1'' ''newpass1'' ''newpass1'')
                [aliceWithToken]))
   \<and> snd (reset_password_POST sampleLib sampleEnv (resetBody ''r1'' ''newpass1'' ''newpass1'')
                [aliceWithToken]) \<noteq> [aliceWithToken]
   \<and> snd (forgot_password_POST sampleLib sampleEnv (JObj [(''email'', JStr ''alice@x.com'')])
                [alice]) \<noteq> [alice]"
proof -
  have a: "list_all tokenPaired [alice]" by (simp add: tokenPaired_def alice_def)
  have b: "list_all tokenPaired [aliceWithToken]"
    by (simp add: tokenPaired_def aliceWithToken_def alice_def)
  have f: "findFrom 0 (\<lambda>u. email u = castEmail sampleLib (toLowerCase sampleLib ''alice@x.com'')) [alice]
            = Some \<lparr>docId = 0, doc = alice, modifiedPaths = {}\<rparr>"
    by (simp add: sampleLib_def alice_def)
  have c: "snd (forgot_password_POST sampleLib sampleEnv (JObj [(''email'', JStr ''alice@x.com'')])
                [alice]) \<noteq> [alice]"
    using forgot_password_active_store[where e = sampleEnv and l = sampleLib
        and fs = "[(''email'', JStr ''alice@x.com'')]" and a = "''alice@x.com''"
        and store = "[alice]", OF _ _ _ _ _ f]
      sample_email_valid sample_name_valid
    by (simp add: sampleEnv_def alice_def schemaValid_def validPassword_def)
  have d: "snd (reset_password_POST sampleLib sampleEnv (resetBody ''r1'' ''newpass1'' ''newpass1'')
                [aliceWithToken]) \<noteq> [aliceWithToken]"
    by (simp add: eval_defs)
  show ?thesis
    using a b c d
      reset_token_fields_paired[where l = sampleLib and e = sampleEnv and store = "[alice]"
        and body = "JObj [(''email'', JStr ''alice@x.com'')]"]
      reset_token_fields_paired[where l = sampleLib and e = sampleEnv and store = "[aliceWithToken]"
        and body = "resetBody ''r1'' ''newpass1'' ''newpass1''"]
    by blast
qed

subsection \<open>The save hook hashes a modified password\<close>

text \<open>
  C6. On a save, the hook leaves a password that was not modified since load as it is
  and replaces a modified one by its bcrypt hash under a salt of cost factor 12. If
  the salt generation or the hashing fails, the hook reports the error and the save
  fails without writing. Hence what a successful save stores in the password field is
  the loaded value when the path was not modified and the output of bcrypt when it was;
  as bcrypt never returns its input, the stored value is then not the plaintext that
  was assigned.
\<close>

theorem password_hashed_when_modified:
  "(\<not> isModified d ''password'' \<longrightarrow> pre_save l e d = Inr d)
   \<and> (isModified d ''password'' \<and> genSalt e 12 = Some salt
        \<and> bcryptHash l (password (doc d)) salt = Some hashed \<longrightarrow>
        pre_save l e d = Inr (d\<lparr>doc := (doc d)\<lparr>password := hashed\<rparr>\<rparr>))
   \<and> (isModified d ''password''
        \<and> (genSalt e 12 = None
            \<or> (\<exists>s. genSalt e 12 = Some s \<and> bcryptHash l (password (doc d)) s = None)) \<longrightarrow>
        pre_save l e d = Inl HashError \<and> (\<exists>x. save l e d store = Inl x))
   \<and> (save l e d store = Inr store1 \<and> docId d < length store \<longrightarrow>
        (isModified d ''password'' \<longrightarrow>
           (\<exists>s. genSalt e 12 = Some s
               \<and> bcryptHash l (password (doc d)) s = Some (password (store1 ! docId d))))
        \<and> (\<not> isModified d ''password'' \<longrightarrow> password (store1 ! docId d) = password (doc d)))
   \<and> (save l e d store = Inr store1 \<and> docId d < length store \<and> isModified d ''password''
        \<and> (\<forall>plain s h. bcryptHash l plain s = Some h \<longrightarrow> h \<noteq> plain) \<longrightarrow>
        password (store1 ! docId d) \<noteq> password (doc d))"
proof -
  have c1: "\<not> isModified d ''password'' \<longrightarrow> pre_save l e d = Inr d"
    by (simp add: pre_save_def)
  have c2: "isModified d ''password'' \<and> genSalt e 12 = Some salt
        \<and> bcryptHash l (password (doc d)) salt = Some hashed \<longrightarrow>
        pre_save l e d = Inr (d\<lparr>doc := (doc d)\<lparr>password := hashed\<rparr>\<rparr>)"
    by (simp add: pre_save_def)
  have c3: "isModified d ''password''
        \<and> (genSalt e 12 = None
            \<or> (\<exists>s. genSalt e 12 = Some s \<and> bcryptHash l (password (doc d)) s = None)) \<longrightarrow>
        pre_save l e d = Inl HashError \<and> (\<exists>x. save l e d store = Inl x)"
    by (auto simp add: pre_save_def save_def validateBeforeSave_def)
  have c4: "save l e d store = Inr store1 \<and> docId d < length store \<longrightarrow>
        (isModified d ''password'' \<longrightarrow>
           (\<exists>s. genSalt e 12 = Some s
               \<and> bcryptHash l (password (doc d)) s = Some (password (store1 ! docId d))))
        \<and> (\<not> isModified d ''password'' \<longrightarrow> password (store1 ! docId d) = password (doc d))"
  proof
    assume a: "save l e d store = Inr store1 \<and> docId d < length store"
    from save_Inr[of l e d store store1] a obtain stored where
      s: "store1 = store[docId d := (doc d)\<lparr>password := stored\<rparr>]"
      and m: "isModified d ''password'' \<longrightarrow>
            (\<exists>salt. genSalt e 12 = Some salt \<and> bcryptHash l (password (doc d)) salt = Some stored)"
      and u: "\<not> isModified d ''password'' \<longrightarrow> stored = password (doc d)"
      by blast
    have "password (store1 ! docId d) = stored" using s a by simp
    then show "(isModified d ''password'' \<longrightarrow>
           (\<exists>s. genSalt e 12 = Some s
               \<and> bcryptHash l (password (doc d)) s = Some (password (store1 ! docId d))))
        \<and> (\<not> isModified d ''password'' \<longrightarrow> password (store1 ! docId d) = password (doc d))"
      using m u by simp
  qed
  have c5: "save l e d store = Inr store1 \<and> docId d < length store \<and> isModified d ''password''
        \<and> (\<forall>plain s h. bcryptHash l plain s = Some h \<longrightarrow> h \<noteq> plain) \<longrightarrow>
        password (store1 ! docId d) \<noteq> password (doc d)"
    using c4 by blast
  show ?thesis using c1 c2 c3 c4 c5 by blast
qed

theorem password_hashed_when_modified_witness:
  "pre_save sampleLib sampleEnv \<lparr>docId = 0, doc = alice, modifiedPaths = {}\<rparr>
     = Inr \<lparr>docId = 0, doc = alice, modifiedPaths = {}\<rparr>
   \<and> pre_save sampleLib sampleEnv
        (set_password ''newpass1'' \<lparr>docId = 0, doc = alice, modifiedPaths = {}\<rparr>)
     = Inr \<lparr>docId = 0, doc = alice\<lparr>password := ''$2a$12$saltnewpass1''\<rparr>,
            modifiedPaths = {''password''}\<rparr>
   \<and> pre_save sampleLib (sampleEnv\<lparr>genSalt := (\<lambda>cost. None)\<rparr>)
        (set_password ''newpass1'' \<lparr>docId = 0, doc = alice, modifiedPaths = {}\<rparr>)
     = Inl HashError
   \<and> save sampleLib sampleEnv
        (set_password ''newpass1'' \<lparr>docId = 0, doc = alice, modifiedPaths = {}\<rparr>) [alice]
     = Inr [alice\<lparr>password := ''$2a$12$saltnewpass1''\<rparr>]
   \<and> password ([alice\<lparr>password := ''$2a$12$saltnewpass1''\<rparr>] ! 0) \<noteq> ''newpass1''"
proof -
  let ?clean = "\<lparr>docId = 0, doc = alice, modifiedPaths = {}\<rparr>"
  let ?dirty = "set_password ''newpass1'' ?clean"
  have m: "isModified ?dirty ''password''" "\<not> isModified ?clean ''password''"
    "password (doc ?dirty) = ''newpass1''" "docId ?dirty = 0"
    by (simp_all add: set_password_def markModified_def isModified_def alice_def)
  have s: "save sampleLib sampleEnv ?dirty [alice] = Inr [alice\<lparr>password := ''$2a$12$saltnewpass1''\<rparr>]"
    by (simp add: eval_defs)
  have g: "genSalt sampleEnv 12 = Some ''salt''"
    "bcryptHash sampleLib ''newpass1'' ''salt'' = Some ''$2a$12$saltnewpass1''"
    "genSalt (sampleEnv\<lparr>genSalt := (\<lambda>cost. None)\<rparr>) 12 = None"
    by (simp_all add: sampleEnv_def sampleLib_def)
  note clean = password_hashed_when_modified[where l = sampleLib and e = sampleEnv and d = ?clean,
      THEN conjunct1, THEN mp, OF m(2)]
  note dirty = password_hashed_when_modified[where l = sampleLib and e = sampleEnv and d = ?dirty
      and salt = "''salt''" and hashed = "''$2a$12$saltnewpass1''",
      THEN conjunct2, THEN conjunct1, THEN mp]
  note failing = password_hashed_when_modified[where l = sampleLib
      and e = "sampleEnv\<lparr>genSalt := (\<lambda>cost. None)\<rparr>" and d = ?dirty and store = "[alice]",
      THEN conjunct2, THEN conjunct2, THEN conjunct1, THEN mp]
  note stored = password_hashed_when_modified[where l = sampleLib and e = sampleEnv and d = ?dirty
      and store = "[alice]" and ?store1.0 = "[alice\<lparr>password := ''$2a$12$saltnewpass1''\<rparr>]",
      THEN conjunct2, THEN conjunct2, THEN conjunct2, THEN conjunct2, THEN mp]
  have d2: "pre_save sampleLib sampleEnv ?dirty
     = Inr \<lparr>docId = 0, doc = alice\<lparr>password := ''$2a$12$saltnewpass1''\<rparr>,
            modifiedPaths = {''password''}\<rparr>"
    using dirty m g by (simp add: set_password_def markModified_def alice_def)
  have d3: "pre_save sampleLib (sampleEnv\<lparr>genSalt := (\<lambda>cost. None)\<rparr>) ?dirty = Inl HashError"
    using failing m(1) g(3) by blast
  have d5: "password ([alice\<lparr>password := ''$2a$12$saltnewpass1''\<rparr>] ! 0) \<noteq> ''newpass1''"
    using stored s m sampleLib_bcrypt_differs by simp
  show ?thesis using clean d2 d3 s d5 by blast
qed

subsection \<open>First login\<close>

text \<open>
  C4. For an account found with \<^verbatim>\<open>isFirstLogin\<close> set, \<open>authenticate\<close> never signals
  \<open>Authenticated\<close>: when the account is active and the secret verifies, it issues a
  reset token, stores its hash and expiry on the account and signals
  \<open>PasswordResetRequired\<close> with the plaintext token. The login form, on that response,
  writes neither \<^verbatim>\<open>localStorage\<close> nor the \<^verbatim>\<open>Authorization\<close> header and pushes the
  reset-password route with the token and \<^verbatim>\<open>first=true\<close>. The last conjunct is the
  form's behaviour on any resolved response whose \<^verbatim>\<open>success\<close> and
  \<^verbatim>\<open>requiresPasswordReset\<close> are truthy.
\<close>

theorem first_login_gets_reset_requirement:
  assumes "findFrom 0 (\<lambda>u. email u = toLowerCase l address) store = Some d"
    and "isFirstLogin (doc d)"
  shows "(\<forall>bearer. fst (authenticate l e cmp sign address secret store) \<noteq> Authenticated bearer)
     \<and> (isActive (doc d) \<and> comparePassword cmp (doc d) secret \<longrightarrow>
          authenticate l e cmp sign address secret store =
            (PasswordResetRequired (hex (randomBytes e 32)),
             store[docId d := (doc d)\<lparr>resetPasswordToken := Some (sha256 l (hex (randomBytes e 32))),
                                      resetPasswordExpires := Some (clock e 0 + 10 * 60 * 1000)\<rparr>])
          \<and> (address \<noteq> [] \<and> secret \<noteq> [] \<longrightarrow>
               handleSubmit (\<lambda>a s. login_response (fst (authenticate l e cmp sign a s store)))
                   address secret c =
                 c\<lparr>loading := False, formError := JStr [],
                   pushed := (''/reset-password?token='' @ hex (randomBytes e 32) @ ''&first=true'')
                             # pushed c\<rparr>
               \<and> localStorage
                   (handleSubmit (\<lambda>a s. login_response (fst (authenticate l e cmp sign a s store)))
                      address secret c) = localStorage c
               \<and> authorization
                   (handleSubmit (\<lambda>a s. login_response (fst (authenticate l e cmp sign a s store)))
                      address secret c) = authorization c))
     \<and> (formEmail \<noteq> [] \<and> formPassword \<noteq> [] \<and> post formEmail formPassword = Resolved data
          \<and> destructure data = Inr props \<and> truthy (props ''success'')
          \<and> truthy (props ''requiresPasswordReset'') \<longrightarrow>
          handleSubmit post formEmail formPassword c =
            c\<lparr>loading := False, formError := JStr [],
              pushed := (''/reset-password?token='' @ toString (props ''resetToken'')
                           @ ''&first=true'') # pushed c\<rparr>)"
proof -
  have client: "formEmail \<noteq> [] \<and> formPassword \<noteq> [] \<and> post formEmail formPassword = Resolved data
          \<and> destructure data = Inr props \<and> truthy (props ''success'')
          \<and> truthy (props ''requiresPasswordReset'') \<longrightarrow>
          handleSubmit post formEmail formPassword c =
            c\<lparr>loading := False, formError := JStr [],
              pushed := (''/reset-password?token='' @ toString (props ''resetToken'')
                           @ ''&first=true'') # pushed c\<rparr>"
    by (simp add: handleSubmit_def handleSubmit_try_def Let_def)
  have never: "\<forall>bearer. fst (authenticate l e cmp sign address secret store) \<noteq> Authenticated bearer"
    using authenticate_never_bearer[OF assms] by blast
  have rest: "isActive (doc d) \<and> comparePassword cmp (doc d) secret \<longrightarrow>
          authenticate l e cmp sign address secret store =
            (PasswordResetRequired (hex (randomBytes e 32)),
             store[docId d := (doc d)\<lparr>resetPasswordToken := Some (sha256 l (hex (randomBytes e 32))),
                                      resetPasswordExpires := Some (clock e 0 + 10 * 60 * 1000)\<rparr>])
          \<and> (address \<noteq> [] \<and> secret \<noteq> [] \<longrightarrow>
               handleSubmit (\<lambda>a s. login_response (fst (authenticate l e cmp sign a s store)))
                   address secret c =
                 c\<lparr>loading := False, formError := JStr [],
                   pushed := (''/reset-password?token='' @ hex (randomBytes e 32) @ ''&first=true'')
                             # pushed c\<rparr>
               \<and> localStorage
                   (handleSubmit (\<lambda>a s. login_response (fst (authenticate l e cmp sign a s store)))
                      address secret c) = localStorage c
               \<and> authorization
                   (handleSubmit (\<lambda>a s. login_response (fst (authenticate l e cmp sign a s store)))
                      address secret c) = authorization c)"
  proof
    assume a: "isActive (doc d) \<and> comparePassword cmp (doc d) secret"
    then have au: "authenticate l e cmp sign address secret store =
            (PasswordResetRequired (hex (randomBytes e 32)),
             store[docId d := (doc d)\<lparr>resetPasswordToken := Some (sha256 l (hex (randomBytes e 32))),
                                      resetPasswordExpires := Some (clock e 0 + 10 * 60 * 1000)\<rparr>])"
      using authenticate_first_login[OF assms, of cmp secret e sign] by simp
    have cl: "address \<noteq> [] \<and> secret \<noteq> [] \<longrightarrow>
               handleSubmit (\<lambda>a s. login_response (fst (authenticate l e cmp sign a s store)))
                   address secret c =
                 c\<lparr>loading := False, formError := JStr [],
                   pushed := (''/reset-password?token='' @ hex (randomBytes e 32) @ ''&first=true'')
                             # pushed c\<rparr>"
      using handleSubmit_reset_required[of address secret
          "\<lambda>a s. login_response (fst (authenticate l e cmp sign a s store))"
          "hex (randomBytes e 32)" c] au
      by simp
    show "authenticate l e cmp sign address secret store =
            (PasswordResetRequired (hex (randomBytes e 32)),
             store[docId d := (doc d)\<lparr>resetPasswordToken := Some (sha256 l (hex (randomBytes e 32))),
                                      resetPasswordExpires := Some (clock e 0 + 10 * 60 * 1000)\<rparr>])
          \<and> (address \<noteq> [] \<and> secret \<noteq> [] \<longrightarrow>
               handleSubmit (\<lambda>a s. login_response (fst (authenticate l e cmp sign a s store)))
                   address secret c =
                 c\<lparr>loading := False, formError := JStr [],
                   pushed := (''/reset-password?token='' @ hex (randomBytes e 32) @ ''&first=true'')
                             # pushed c\<rparr>
               \<and> localStorage
                   (handleSubmit (\<lambda>a s. login_response (fst (authenticate l e cmp sign a s store)))
                      address secret c) = localStorage c
               \<and> authorization
                   (handleSubmit (\<lambda>a s. login_response (fst (authenticate l e cmp sign a s store)))
                      address secret c) = authorization c)"
      using au cl by simp
  qed
  show ?thesis using never rest client by blast
qed

theorem first_login_gets_reset_requirement_witness:
  "fst (authenticate sampleLib sampleEnv sampleCompare sampleSign ''alice@x.com'' ''hunter2x'' [alice])
     = PasswordResetRequired ''0707070707070707070707070707070707070707070707070707070707070707''
   \<and> handleSubmit
        (\<lambda>a s. login_response
                 (fst (authenticate sampleLib sampleEnv sampleCompare sampleSign a s [alice])))
        ''alice@x.com'' ''hunter2x'' sampleClient =
       sampleClient\<lparr>pushed :=
         [''/reset-password?token=0707070707070707070707070707070707070707070707070707070707070707&first=true'']\<rparr>
   \<and> localStorage (handleSubmit
        (\<lambda>a s. login_response
                 (fst (authenticate sampleLib sampleEnv sampleCompare sampleSign a s [alice])))
        ''alice@x.com'' ''hunter2x'' sampleClient) ''auth-token'' = None"
proof -
  let ?d = "\<lparr>docId = 0, doc = alice, modifiedPaths = {}\<rparr>"
  have f: "findFrom 0 (\<lambda>u. email u = toLowerCase sampleLib ''alice@x.com'') [alice] = Some ?d"
    by (simp add: sampleLib_def alice_def)
  have h: "isFirstLogin (doc ?d)" "isActive (doc ?d) \<and> comparePassword sampleCompare (doc ?d) ''hunter2x''"
    "''alice@x.com'' \<noteq> [] \<and> ''hunter2x'' \<noteq> []"
    by (simp_all add: alice_def comparePassword_def sampleCompare_def)
  note th = first_login_gets_reset_requirement[OF f h(1), where e = sampleEnv
      and cmp = sampleCompare and sign = sampleSign and secret = "''hunter2x''"
      and c = sampleClient]
  note server = th[THEN conjunct2, THEN conjunct1, THEN mp, OF h(2)]
  note client = server[THEN conjunct2, THEN mp, OF h(3)]
  have a: "fst (authenticate sampleLib sampleEnv sampleCompare sampleSign ''alice@x.com'' ''hunter2x'' [alice])
     = PasswordResetRequired ''0707070707070707070707070707070707070707070707070707070707070707''"
    using server[THEN conjunct1] by (simp add: sample_token_7)
  have b: "handleSubmit
        (\<lambda>a s. login_response
                 (fst (authenticate sampleLib sampleEnv sampleCompare sampleSign a s [alice])))
        ''alice@x.com'' ''hunter2x'' sampleClient =
       sampleClient\<lparr>pushed :=
         [''/reset-password?token=0707070707070707070707070707070707070707070707070707070707070707&first=true'']\<rparr>"
    using client[THEN conjunct1] by (simp add: sample_token_7 sampleClient_def)
  have c: "localStorage (handleSubmit
        (\<lambda>a s. login_response
                 (fst (authenticate sampleLib sampleEnv sampleCompare sampleSign a s [alice])))
        ''alice@x.com'' ''hunter2x'' sampleClient) ''auth-token'' = None"
    unfolding b by (simp add: sampleClient_def)
  show ?thesis using a b c by blast
qed

end
